theory Spec2Isabelle
  imports Main "HOL-Library.Word" "HOL-Library.Sublist"
begin

unbundle bit_operations_syntax

section \<open>Data model\<close>

text \<open>
  The configuration record of a container (\<open>utils.Config\<close>). The fields are the ones the
  container utilities read and write; every field is a Go string or a slice of strings.
\<close>

record Config =
  ID :: string
  Names :: string
  Created :: string
  Hostname :: string
  Image :: string
  Entrypoint :: "string list"
  Env :: "string list"
  Workdir :: string
  User :: string
  Labels :: "string list"
  Uidmap :: string
  Gidmap :: string
  Userns :: string
  Ipc :: string
  Pid :: string
  Cgroup :: string
  Network :: string
  Status :: string
  Size :: string

text \<open>The isolation-mode strings of package \<open>constants\<close>.\<close>

definition KeepID :: string where "KeepID = ''keep-id''"
definition Private :: string where "Private = ''private''"
definition TrueString :: string where "TrueString = ''true''"

section \<open>Filtering (\<open>filterContainer\<close>)\<close>

text \<open>
  \<open>strings.Split(s, sep)\<close> of the Go library for a non-empty separator: the pieces of
  \<open>s\<close> between the leftmost non-overlapping occurrences of \<open>sep\<close>; a string without the
  separator is the single piece. For the empty separator Go explodes the string into
  its characters (one piece per byte for ASCII text).
\<close>

function Split_from :: "string \<Rightarrow> string \<Rightarrow> string \<Rightarrow> string list" where
  "Split_from sep cur [] = [cur]"
| "Split_from sep cur (c # cs) =
     (if sep \<noteq> [] \<and> prefix sep (c # cs)
      then cur # Split_from sep [] (drop (length sep) (c # cs))
      else Split_from sep (cur @ [c]) cs)"
  by pat_completeness auto
termination
  by (relation "measure (\<lambda>(sep, cur, s). length s)") auto

definition strings_Split :: "string \<Rightarrow> string \<Rightarrow> string list" where
  "strings_Split s sep = (if sep = [] then map (\<lambda>c. [c]) s else Split_from sep [] s)"

text \<open>
  The number of (record label, filter label) pairs that are equal: the two nested loops
  of the \<open>label\<close> case, which increment \<open>matched\<close> once per equal pair.
\<close>

definition label_matches :: "string list \<Rightarrow> string list \<Rightarrow> nat" where
  "label_matches containerLabels labels =
     length [(cl, fl). cl \<leftarrow> containerLabels, fl \<leftarrow> labels, cl = fl]"

text \<open>
  One iteration of the loop over the filter map: what the entry \<open>(name, filter)\<close> adds to
  \<open>matched\<close>. The separator \<open>constants.FilterSeparator\<close> is a parameter.
\<close>

definition filter_step :: "string \<Rightarrow> Config \<Rightarrow> string \<times> string \<Rightarrow> nat" where
  "filter_step sep config nf =
     (let name = fst nf; filter = snd nf in
      if name = ''label'' then label_matches (Labels config) (strings_Split filter sep)
      else if name = ''status'' then (if Status config = filter then 1 else 0)
      else if name = ''name'' then (if Names config = filter then 1 else 0)
      else if name = ''id'' then (if ID config = filter then 1 else 0)
      else 0)"

text \<open>
  \<open>filterContainer\<close>. The Go map is an association list with distinct keys; the order in
  which Go visits the entries does not matter, since the loop only adds to a counter.
\<close>

definition filterContainer :: "string \<Rightarrow> Config \<Rightarrow> (string \<times> string) list \<Rightarrow> bool" where
  "filterContainer sep config filters =
     (if length filters = 0 then True
      else
        let matched = fold (\<lambda>nf m. m + filter_step sep config nf) filters 0;
            filterLen = length filters
        in matched \<ge> filterLen)"

text \<open>
  What the documentation of the filter asks of one entry: the entry finds at least one
  match inside the record.
\<close>

definition filter_finds_match :: "string \<Rightarrow> Config \<Rightarrow> string \<times> string \<Rightarrow> bool" where
  "filter_finds_match sep config nf =
     (let name = fst nf; filter = snd nf in
      if name = ''label''
        then list_ex (\<lambda>cl. list_ex (\<lambda>fl. cl = fl) (strings_Split filter sep)) (Labels config)
      else if name = ''status'' then Status config = filter
      else if name = ''name'' then Names config = filter
      else if name = ''id'' then ID config = filter
      else True)"

definition empty_config :: Config where
  "empty_config = \<lparr> ID = [], Names = [], Created = [], Hostname = [], Image = [],
     Entrypoint = [], Env = [], Workdir = [], User = [], Labels = [], Uidmap = [],
     Gidmap = [], Userns = [], Ipc = [], Pid = [], Cgroup = [], Network = [],
     Status = [], Size = [] \<rparr>"

text \<open>A record named \<open>web\<close> with two labels, used below.\<close>

definition web_config :: Config where
  "web_config = empty_config \<lparr> ID := ''2567a5ec9705eb7ac2c984033e06189d'', Names := ''web'',
     Labels := [''a=1'', ''b=2''], Status := ''stopped'' \<rparr>"


section \<open>Paths\<close>

text \<open>
  A cleaned absolute path is the list of its components; the root directory is the
  empty list. \<open>filepath.Join(base, elem)\<close> with a cleaned absolute \<open>base\<close> walks the
  components of \<open>elem\<close> from \<open>base\<close>, as \<open>filepath.Clean\<close> does on the joined string: an
  empty component and \<open>.\<close> stay in place, \<open>..\<close> goes one level up and stays at the root.
\<close>

type_synonym path = "string list"

fun walk :: "path \<Rightarrow> string list \<Rightarrow> path" where
  "walk base [] = base"
| "walk base (c # cs) =
     (if c = [] \<or> c = ''.'' then walk base cs
      else if c = ''..'' then walk (butlast base) cs
      else walk (base @ [c]) cs)"

definition Join :: "path \<Rightarrow> string \<Rightarrow> path" where
  "Join base elem = walk base (strings_Split elem ''/'')"

text \<open>
  \<open>filepath.Base\<close>: the last element of a path string, after the trailing separators
  are removed; \<open>.\<close> for the empty string and \<open>/\<close> for a string of separators only.
\<close>

definition strip_slashes :: "string \<Rightarrow> string" where
  "strip_slashes p = rev (dropWhile (\<lambda>c. c = CHR ''/'') (rev p))"

definition Base :: "string \<Rightarrow> string" where
  "Base p =
     (if p = [] then ''.''
      else if strip_slashes p = [] then ''/''
      else last (strings_Split (strip_slashes p) ''/''))"

section \<open>MD5 (\<open>crypto/md5\<close>)\<close>

text \<open>
  The MD5 digest of RFC 1321, which \<open>md5.New\<close>, \<open>io.WriteString\<close> and \<open>Sum(nil)\<close>
  compute: 32-bit words, 64 rounds per 64-byte block, little-endian input words and
  output bytes. Bytes are natural numbers below 256.
\<close>

type_synonym u32 = "32 word"

definition md5_K :: "u32 list" where
  "md5_K = [0xd76aa478, 0xe8c7b756, 0x242070db, 0xc1bdceee, 0xf57c0faf, 0x4787c62a, 0xa8304613, 0xfd469501, 0x698098d8, 0x8b44f7af, 0xffff5bb1, 0x895cd7be, 0x6b901122, 0xfd987193, 0xa679438e, 0x49b40821, 0xf61e2562, 0xc040b340, 0x265e5a51, 0xe9b6c7aa, 0xd62f105d, 0x02441453, 0xd8a1e681, 0xe7d3fbc8, 0x21e1cde6, 0xc33707d6, 0xf4d50d87, 0x455a14ed, 0xa9e3e905, 0xfcefa3f8, 0x676f02d9, 0x8d2a4c8a, 0xfffa3942, 0x8771f681, 0x6d9d6122, 0xfde5380c, 0xa4beea44, 0x4bdecfa9, 0xf6bb4b60, 0xbebfbc70, 0x289b7ec6, 0xeaa127fa, 0xd4ef3085, 0x04881d05, 0xd9d4d039, 0xe6db99e5, 0x1fa27cf8, 0xc4ac5665, 0xf4292244, 0x432aff97, 0xab9423a7, 0xfc93a039, 0x655b59c3, 0x8f0ccc92, 0xffeff47d, 0x85845dd1, 0x6fa87e4f, 0xfe2ce6e0, 0xa3014314, 0x4e0811a1, 0xf7537e82, 0xbd3af235, 0x2ad7d2bb, 0xeb86d391]"

definition rotl32 :: "u32 \<Rightarrow> nat \<Rightarrow> u32" where
  "rotl32 x n = push_bit n x OR drop_bit (32 - n) x"


definition md5_S :: "nat list" where
  "md5_S = [7, 12, 17, 22, 7, 12, 17, 22, 7, 12, 17, 22, 7, 12, 17, 22,
            5, 9, 14, 20, 5, 9, 14, 20, 5, 9, 14, 20, 5, 9, 14, 20,
            4, 11, 16, 23, 4, 11, 16, 23, 4, 11, 16, 23, 4, 11, 16, 23,
            6, 10, 15, 21, 6, 10, 15, 21, 6, 10, 15, 21, 6, 10, 15, 21]"

type_synonym md5_state = "u32 \<times> u32 \<times> u32 \<times> u32"

definition md5_F :: "nat \<Rightarrow> u32 \<Rightarrow> u32 \<Rightarrow> u32 \<Rightarrow> u32" where
  "md5_F i b c d =
     (if i < 16 then (b AND c) OR (NOT b AND d)
      else if i < 32 then (d AND b) OR (NOT d AND c)
      else if i < 48 then b XOR c XOR d
      else c XOR (b OR NOT d))"

definition md5_g :: "nat \<Rightarrow> nat" where
  "md5_g i =
     (if i < 16 then i
      else if i < 32 then (5 * i + 1) mod 16
      else if i < 48 then (3 * i + 5) mod 16
      else (7 * i) mod 16)"

fun md5_step :: "u32 list \<Rightarrow> md5_state \<Rightarrow> nat \<Rightarrow> md5_state" where
  "md5_step M (a, b, c, d) i =
     (d, b + rotl32 (md5_F i b c d + a + md5_K ! i + M ! md5_g i) (md5_S ! i), b, c)"

fun md5_add :: "md5_state \<Rightarrow> md5_state \<Rightarrow> md5_state" where
  "md5_add (a0, b0, c0, d0) (a, b, c, d) = (a0 + a, b0 + b, c0 + c, d0 + d)"

function md5_rounds :: "u32 list \<Rightarrow> md5_state \<Rightarrow> nat \<Rightarrow> md5_state" where
  "md5_rounds M st i = (if i < 64 then md5_rounds M (md5_step M st i) (i + 1) else st)"
  by pat_completeness auto
termination
  by (relation "measure (\<lambda>(M, st, i). 64 - i)") auto

declare md5_rounds.simps [simp del]

definition md5_block :: "md5_state \<Rightarrow> u32 list \<Rightarrow> md5_state" where
  "md5_block st M = md5_add st (md5_rounds M st 0)"

fun le_words :: "nat list \<Rightarrow> u32 list" where
  "le_words (b0 # b1 # b2 # b3 # bs) =
     word_of_nat (b0 + 256 * b1 + 65536 * b2 + 16777216 * b3) # le_words bs"
| "le_words _ = []"

text \<open>The four, respectively eight, little-endian bytes of a number.\<close>

definition le_bytes4 :: "nat \<Rightarrow> nat list" where
  "le_bytes4 v = [v mod 256, v div 256 mod 256, v div 65536 mod 256, v div 16777216 mod 256]"

definition le_bytes8 :: "nat \<Rightarrow> nat list" where
  "le_bytes8 v = le_bytes4 (v mod 4294967296) @ le_bytes4 (v div 4294967296 mod 4294967296)"

function zero_bytes :: "nat \<Rightarrow> nat list" where
  "zero_bytes n = (if n = 0 then [] else 0 # zero_bytes (n - 1))"
  by pat_completeness auto
termination
  by (relation "measure id") auto

declare zero_bytes.simps [simp del]

text \<open>
  Padding: the byte \<open>0x80\<close>, zero bytes up to a length of 56 modulo 64, then the
  length of the message in bits as a 64-bit little-endian number.
\<close>

definition md5_pad :: "nat list \<Rightarrow> nat list" where
  "md5_pad bs =
     bs @ [128] @ zero_bytes ((119 - length bs mod 64) mod 64) @ le_bytes8 ((8 * length bs) mod 18446744073709551616)"

function md5_blocks :: "md5_state \<Rightarrow> u32 list \<Rightarrow> md5_state" where
  "md5_blocks st ws =
     (if length ws < 16 then st
      else md5_blocks (md5_block st (take 16 ws)) (drop 16 ws))"
  by pat_completeness auto
termination
  by (relation "measure (\<lambda>(st, ws). length ws)") auto

declare md5_blocks.simps [simp del]

definition md5_init :: md5_state where
  "md5_init = (0x67452301, 0xefcdab89, 0x98badcfe, 0x10325476)"

fun md5_out :: "md5_state \<Rightarrow> nat list" where
  "md5_out (a, b, c, d) =
     le_bytes4 (unat a) @ le_bytes4 (unat b) @ le_bytes4 (unat c) @ le_bytes4 (unat d)"

definition md5_Sum :: "string \<Rightarrow> nat list" where
  "md5_Sum s = md5_out (md5_blocks md5_init (le_words (md5_pad (map of_char s))))"

text \<open>\<open>fmt.Sprintf("%x", bytes)\<close>: two lower-case hexadecimal digits per byte.\<close>

definition hex_digit :: "nat \<Rightarrow> char" where
  "hex_digit n = ''0123456789abcdef'' ! (n mod 16)"

definition hex_bytes :: "nat list \<Rightarrow> string" where
  "hex_bytes bs = concat (map (\<lambda>b. [hex_digit (b div 16), hex_digit b]) bs)"

definition md5_hex :: "string \<Rightarrow> string" where
  "md5_hex s = hex_bytes (md5_Sum s)"





section \<open>The world around the program\<close>

text \<open>
  A filesystem entry is a directory or a file (a regular file or a socket) with its
  permission bits; a filesystem is an association list from cleaned absolute paths to
  entries. The root directory always exists. Permission bits are recorded, not
  enforced, and every path is resolved from the root directory.
\<close>

datatype node = Dir nat | File nat string

type_synonym filesystem = "(path \<times> node) list"

datatype signal = SIGTERM | SIGKILL

text \<open>
  Errors: the error number of a system call, a failed operation on a path, a message
  built by \<open>errors.New\<close> or \<open>fmt.Errorf\<close>, and an error wrapped with \<open>%w\<close>.
\<close>

datatype error =
    ReadDirError
  | NotRunning string
  | ParseIntError string
  | Errno nat
  | PathError string path
  | CorruptConfig path
  | ProcessDone
  | ExitError nat
  | Msg string
  | Wrap string error
  | Errors "error list"

text \<open>
  A child process of the program, by its handle: running (and, for \<open>Deaf\<close>, ignoring
  SIGTERM), exited but not yet waited for, or reaped.
\<close>

datatype pstate = Running | Deaf | Exited | Reaped

text \<open>The three ways to launch the container process.\<close>

datatype launch_mode = WithTTY | Interactive | Detached path

text \<open>
  \<open>syscall.SysProcAttr\<close> with the fields that are set, and \<open>exec.Cmd\<close>. An argument of
  the command line is a string or the JSON encoding of a configuration record, which is
  kept as the record.
\<close>

record SysProcAttr =
  Setsid :: bool
  Setpgid :: bool
  Foreground :: bool
  Credential :: "(nat \<times> nat) option"
  UidMappings :: string
  GidMappings :: string

datatype arg = Str string | ConfigJSON Config

record Cmd =
  Path :: string
  Args :: "arg list"
  Attr :: "SysProcAttr option"

text \<open>The calls into the operating system that a run leaves behind, in order.\<close>

datatype event =
    EvGetPid string
  | EvKill int signal
  | EvSleep
  | EvUnshare "64 word"
  | EvMount string string
  | EvUmount string
  | EvMkdirAll path nat
  | EvWriteFile path nat
  | EvRemove string
  | EvRemoveAll string
  | EvStartSlirp string "string list"
  | EvSignal nat signal
  | EvWait nat
  | EvLaunch launch_mode Cmd
  | EvRm string

text \<open>
  The state of the host and the answers of its environment.
  \<^item> \<open>ContainerDir\<close> and \<open>LilipodBinPath\<close> are the package variables of these names,
    \<open>PtyAgentPath\<close> is the constant of package \<open>constants\<close>; \<open>Args0\<close> is \<open>os.Args[0]\<close>,
    \<open>ROOTFUL\<close> the value of that environment variable.
  \<^item> \<open>fs\<close> is the filesystem, \<open>mounted\<close> the stack of mount points of bind mounts,
    \<open>children\<close> the state of the child processes by handle.
  \<^item> \<open>proc t\<close> is the content of \<open>/proc\<close> at time \<open>t\<close> (in seconds): \<open>None\<close> when the
    directory cannot be read, otherwise its entries in directory order, each with the
    bytes of its \<open>root/run/.containerenv\<close> when that file can be read.
  \<^item> \<open>kill_errno t pid sig\<close>, \<open>unshare_errno flags\<close> and \<open>mount_errno target\<close> are the
    error numbers of these system calls, \<open>0\<close> for success.
  \<^item> \<open>start_process args\<close> is the handle of a started \<open>slirp4netns\<close>, \<open>None\<close> when it
    cannot be started; \<open>launch_error\<close> is the error of running the container process.
  \<^item> \<open>parse_config\<close> decodes the JSON of a configuration file; \<open>rm_result\<close> is the
    result of running the program's own \<open>rm\<close> command; \<open>disc_usage\<close> is the size of a
    directory; \<open>render_config format\<close> prints a record through a template, or as
    indented JSON for the empty format.
\<close>

record world =
  ContainerDir :: path
  LilipodBinPath :: path
  PtyAgentPath :: string
  Args0 :: string
  LogLevel :: string
  ROOTFUL :: string
  Getpid :: int
  Getuid :: nat
  fs :: filesystem
  mounted :: "path list"
  children :: "nat \<Rightarrow> pstate"
  clock :: nat
  proc :: "nat \<Rightarrow> (string \<times> string option) list option"
  kill_errno :: "nat \<Rightarrow> int \<Rightarrow> signal \<Rightarrow> nat"
  unshare_errno :: "64 word \<Rightarrow> nat"
  mount_errno :: "path \<Rightarrow> nat"
  start_process :: "string list \<Rightarrow> nat option"
  launch_error :: "launch_mode \<Rightarrow> error option"
  keepid_error :: "error option"
  parse_config :: "string \<Rightarrow> Config option"
  rm_result :: "string \<Rightarrow> error option"
  disc_usage :: "path \<Rightarrow> error + string"
  render_config :: "string \<Rightarrow> Config \<Rightarrow> error + string"
  trace :: "event list"

text \<open>
  Modelled from the spec: \<open>fileutils.Exist\<close>, which is not among the sources, tells
  whether a path exists in the filesystem.
\<close>

definition Exist :: "filesystem \<Rightarrow> path \<Rightarrow> bool" where
  "Exist f p = (p = [] \<or> map_of f p \<noteq> None)"

section \<open>Identity (\<open>GetID\<close>)\<close>

text \<open>
  \<open>GetID\<close>: a name under which a directory exists in \<open>ContainerDir\<close> is an ID and is
  returned as it is; any other name is hashed. Writing to an MD5 hasher never fails, so
  the branch that returns the empty string is not reachable.
\<close>

definition GetID :: "world \<Rightarrow> string \<Rightarrow> string" where
  "GetID w name =
     (if Exist (fs w) (Join (ContainerDir w) name) then name else md5_hex name)"

definition GetDir :: "world \<Rightarrow> string \<Rightarrow> path" where
  "GetDir w name = Join (ContainerDir w) (GetID w name)"

definition GetRootfsDir :: "world \<Rightarrow> string \<Rightarrow> path" where
  "GetRootfsDir w name = Join (GetDir w name) ''rootfs''"

text \<open>A host with no container at all, and one on which the container \<open>web\<close> exists.\<close>

definition empty_world :: world where
  "empty_world = \<lparr> ContainerDir = [''home'', ''u'', ''containers''],
     LilipodBinPath = [''home'', ''u'', ''bin''], PtyAgentPath = ''/sbin/pty'',
     Args0 = ''lilipod'', LogLevel = ''warn'', ROOTFUL = [], Getpid = 100, Getuid = 1000,
     fs = [([''home''], Dir 493), ([''home'', ''u''], Dir 493),
           ([''home'', ''u'', ''containers''], Dir 493)],
     mounted = [], children = (\<lambda>h. Reaped),
     clock = 0, proc = (\<lambda>t. Some []), kill_errno = (\<lambda>t p s. 0),
     unshare_errno = (\<lambda>flags. 0), mount_errno = (\<lambda>p. 0),
     start_process = (\<lambda>args. Some 7), launch_error = (\<lambda>m. None), keepid_error = None,
     parse_config = (\<lambda>s. None), rm_result = (\<lambda>c. None),
     disc_usage = (\<lambda>p. Inr ''0''), render_config = (\<lambda>format c. Inr (Names c)),
     trace = [] \<rparr>"

definition web_world :: world where
  "web_world = empty_world \<lparr> fs := fs empty_world @
     [([''home'', ''u'', ''containers'', ''2567a5ec9705eb7ac2c984033e06189d''], Dir 493)] \<rparr>"

section \<open>Process discovery (\<open>GetPid\<close>) and \<open>Stop\<close>\<close>

text \<open>
  \<open>strconv.ParseInt(s, 10, 32)\<close>: an optional sign, then at least one decimal digit and
  nothing else; a value outside the 32-bit signed range is an error.
\<close>

definition is_digit :: "char \<Rightarrow> bool" where
  "is_digit c = (48 \<le> (of_char c :: nat) \<and> (of_char c :: nat) \<le> 57)"

fun parse_digits :: "string \<Rightarrow> nat \<Rightarrow> nat option" where
  "parse_digits [] acc = Some acc"
| "parse_digits (c # cs) acc =
     (if is_digit c then parse_digits cs (10 * acc + (of_char c - 48)) else None)"

definition ParseInt32 :: "string \<Rightarrow> int option" where
  "ParseInt32 s =
     (let neg = (s \<noteq> [] \<and> hd s = CHR ''-'');
          ds = (if s \<noteq> [] \<and> (hd s = CHR ''-'' \<or> hd s = CHR ''+'') then tl s else s)
      in if ds = [] then None
         else case parse_digits ds 0 of
                None \<Rightarrow> None
              | Some n \<Rightarrow>
                  let v = (if neg then - int n else int n)
                  in if - 2147483648 \<le> v \<and> v \<le> 2147483647 then Some v else None)"

text \<open>
  The loop of \<open>GetPid\<close> over the entries of \<open>/proc\<close>: an entry whose marker file cannot
  be read is skipped; the first entry whose marker contains the ID decides, and its
  name must parse as a number.
\<close>

fun scan_proc :: "string \<Rightarrow> (string \<times> string option) list \<Rightarrow> error + int" where
  "scan_proc ident [] = Inl (NotRunning ident)"
| "scan_proc ident ((name, None) # rest) = scan_proc ident rest"
| "scan_proc ident ((name, Some filedata) # rest) =
     (if sublist ident filedata
      then (case ParseInt32 name of None \<Rightarrow> Inl (ParseIntError name) | Some pid \<Rightarrow> Inr pid)
      else scan_proc ident rest)"

text \<open>What \<open>GetPid\<close> finds when \<open>/proc\<close> is read at time \<open>t\<close>.\<close>

definition lookup_pid :: "world \<Rightarrow> nat \<Rightarrow> string \<Rightarrow> error + int" where
  "lookup_pid w t ident =
     (case proc w t of
        None \<Rightarrow> Inl ReadDirError
      | Some processes \<Rightarrow> scan_proc (GetID w ident) processes)"

definition GetPid :: "world \<Rightarrow> string \<Rightarrow> (error + int) \<times> world" where
  "GetPid w ident =
     (lookup_pid w (clock w) ident, w\<lparr>trace := trace w @ [EvGetPid ident]\<rparr>)"

text \<open>The number that \<open>GetPid\<close> returns beside its error: \<open>-1\<close> with every error.\<close>

definition pid_of :: "error + int \<Rightarrow> int" where
  "pid_of r = (case r of Inl e \<Rightarrow> - 1 | Inr pid \<Rightarrow> pid)"

definition isOK :: "error + int \<Rightarrow> bool" where
  "isOK r = (case r of Inl e \<Rightarrow> False | Inr pid \<Rightarrow> True)"

definition IsRunning :: "world \<Rightarrow> string \<Rightarrow> bool \<times> world" where
  "IsRunning w name =
     (case GetPid w name of (r, w') \<Rightarrow> (pid_of r > 0 \<and> isOK r, w'))"

definition Kill :: "world \<Rightarrow> int \<Rightarrow> signal \<Rightarrow> error option \<times> world" where
  "Kill w pid sig =
     (let e = kill_errno w (clock w) pid sig
      in (if e = 0 then None else Some (Errno e), w\<lparr>trace := trace w @ [EvKill pid sig]\<rparr>))"

text \<open>\<open>time.Sleep(time.Second)\<close>.\<close>

definition Sleep_second :: "world \<Rightarrow> world" where
  "Sleep_second w = w\<lparr>clock := clock w + 1, trace := trace w @ [EvSleep]\<rparr>"

text \<open>
  The polling loop of \<open>Stop\<close>. \<open>timeout\<close> is a Go \<open>int\<close>; it is only decremented while
  positive, so it never wraps around.
\<close>

function stop_loop :: "world \<Rightarrow> string \<Rightarrow> int \<Rightarrow> int \<Rightarrow> error option \<times> world" where
  "stop_loop w name containerPid timeout =
     (if timeout \<le> 0 then Kill w containerPid SIGKILL
      else
        case GetPid (Sleep_second w) name of (r, w') \<Rightarrow>
          if pid_of r < 1 then (None, w')
          else stop_loop w' name (pid_of r) (timeout - 1))"
  by pat_completeness auto
termination
  by (relation "measure (\<lambda>(w, name, containerPid, timeout). nat timeout)") auto

declare stop_loop.simps [simp del]

definition Stop :: "world \<Rightarrow> string \<Rightarrow> bool \<Rightarrow> int \<Rightarrow> error option \<times> world" where
  "Stop w name force timeout =
     (case GetPid w name of
        (Inl err, w1) \<Rightarrow> (Some err, w1)
      | (Inr containerPid, w1) \<Rightarrow>
          if force then Kill w1 containerPid SIGKILL
          else
            case Kill w1 containerPid SIGTERM of
              (Some err, w2) \<Rightarrow> (Some err, w2)
            | (None, w2) \<Rightarrow> stop_loop w2 name containerPid timeout)"

text \<open>The events of \<open>n\<close> polls: a sleep of one second, then a query of the PID.\<close>

definition polls :: "string \<Rightarrow> nat \<Rightarrow> event list" where
  "polls name n = concat (replicate n [EvSleep, EvGetPid name])"

text \<open>
  A host on which the container \<open>web\<close> runs as process 4242 and ignores SIGTERM, and one
  on which the process is gone two seconds after time 0.
\<close>

definition stubborn_world :: world where
  "stubborn_world = web_world \<lparr> proc :=
     (\<lambda>t. Some [(''1'', None), (''4242'', Some ''engine=lilipod id=2567a5ec9705eb7ac2c984033e06189d''),
                 (''self'', None)]) \<rparr>"

definition dying_world :: world where
  "dying_world = web_world \<lparr> proc :=
     (\<lambda>t. if t < 2
          then Some [(''1'', None), (''4242'', Some ''id=2567a5ec9705eb7ac2c984033e06189d'')]
          else Some [(''1'', None)]) \<rparr>"

section \<open>Operations of the operating system\<close>

text \<open>Error numbers of Linux.\<close>

definition ENOENT :: nat where "ENOENT = 2"
definition EBUSY :: nat where "EBUSY = 16"
definition ENOTDIR :: nat where "ENOTDIR = 20"
definition EISDIR :: nat where "EISDIR = 21"
definition EINVAL :: nat where "EINVAL = 22"
definition ENOTEMPTY :: nat where "ENOTEMPTY = 39"

definition IsNotExist :: "error \<Rightarrow> bool" where
  "IsNotExist err = (err = Errno ENOENT)"

text \<open>
  How a call ends: it returns, it panics, or it blocks for ever.
\<close>

datatype 'a outcome = Returns 'a | Panics | Blocks

text \<open>The path that a path string names, and the string of a cleaned path.\<close>

definition to_path :: "string \<Rightarrow> path" where
  "to_path name = Join [] name"

definition render :: "path \<Rightarrow> string" where
  "render p = (if p = [] then ''/'' else concat (map (\<lambda>c. CHR ''/'' # c) p))"

text \<open>Decimal digits of a number, as \<open>fmt.Sprint\<close> prints it.\<close>

definition digit_char :: "nat \<Rightarrow> char" where
  "digit_char n = ''0123456789'' ! (n mod 10)"

function show_nat :: "nat \<Rightarrow> string" where
  "show_nat n =
     (if n < 10 then [digit_char n]
      else show_nat (n div 10) @ [digit_char n])"
  by pat_completeness auto
termination
  by (relation "measure id") auto

declare show_nat.simps [simp del]

definition show_int :: "int \<Rightarrow> string" where
  "show_int i = (if i < 0 then CHR ''-'' # show_nat (nat (- i)) else show_nat (nat i))"

definition is_dir :: "filesystem \<Rightarrow> path \<Rightarrow> bool" where
  "is_dir f p = (p = [] \<or> (case map_of f p of Some (Dir m) \<Rightarrow> True | _ \<Rightarrow> False))"

definition fs_put :: "filesystem \<Rightarrow> path \<Rightarrow> node \<Rightarrow> filesystem" where
  "fs_put f p n = filter (\<lambda>e. fst e \<noteq> p) f @ [(p, n)]"

text \<open>
  Modelled from the spec: \<open>fileutils.ReadFile\<close>, which is not among the sources, reads
  the content of a file.
\<close>

definition ReadFile :: "filesystem \<Rightarrow> path \<Rightarrow> error + string" where
  "ReadFile f p =
     (case map_of f p of
        Some (File m filedata) \<Rightarrow> Inr filedata
      | Some (Dir m) \<Rightarrow> Inl (Errno EISDIR)
      | None \<Rightarrow> Inl (Errno ENOENT))"

text \<open>
  \<open>os.MkdirAll\<close>: every missing directory on the way to the path is created with the
  given permission bits; a file on the way is an error.
\<close>

fun mkdir_from :: "filesystem \<Rightarrow> path \<Rightarrow> string list \<Rightarrow> nat \<Rightarrow> error + filesystem" where
  "mkdir_from f base [] perm = Inr f"
| "mkdir_from f base (c # cs) perm =
     (case map_of f (base @ [c]) of
        Some (Dir m) \<Rightarrow> mkdir_from f (base @ [c]) cs perm
      | Some (File m filedata) \<Rightarrow> Inl (Errno ENOTDIR)
      | None \<Rightarrow> mkdir_from (fs_put f (base @ [c]) (Dir perm)) (base @ [c]) cs perm)"

definition MkdirAll :: "world \<Rightarrow> path \<Rightarrow> nat \<Rightarrow> error option \<times> world" where
  "MkdirAll w p perm =
     (let w' = w\<lparr>trace := trace w @ [EvMkdirAll p perm]\<rparr>
      in case mkdir_from (fs w) [] p perm of
           Inl err \<Rightarrow> (Some err, w')
         | Inr f \<Rightarrow> (None, w'\<lparr>fs := f\<rparr>))"

text \<open>
  \<open>os.WriteFile\<close> (and, modelled from the spec, \<open>fileutils.WriteFile\<close>, which is not
  among the sources): the parent must be a directory and the path must not be one; a new
  file gets the given permission bits, an existing file keeps its own.
\<close>

definition write_file :: "filesystem \<Rightarrow> path \<Rightarrow> string \<Rightarrow> nat \<Rightarrow> error + filesystem" where
  "write_file f p filedata perm =
     (if p = [] then Inl (Errno EISDIR)
      else if \<not> Exist f (butlast p) then Inl (Errno ENOENT)
      else if \<not> is_dir f (butlast p) then Inl (Errno ENOTDIR)
      else case map_of f p of
             Some (Dir m) \<Rightarrow> Inl (Errno EISDIR)
           | Some (File m old) \<Rightarrow> Inr (fs_put f p (File m filedata))
           | None \<Rightarrow> Inr (fs_put f p (File perm filedata)))"

definition WriteFile :: "world \<Rightarrow> path \<Rightarrow> string \<Rightarrow> nat \<Rightarrow> error option \<times> world" where
  "WriteFile w p filedata perm =
     (let w' = w\<lparr>trace := trace w @ [EvWriteFile p perm]\<rparr>
      in case write_file (fs w) p filedata perm of
           Inl err \<Rightarrow> (Some err, w')
         | Inr f \<Rightarrow> (None, w'\<lparr>fs := f\<rparr>))"

definition os_WriteFile :: "world \<Rightarrow> string \<Rightarrow> string \<Rightarrow> nat \<Rightarrow> error option \<times> world" where
  "os_WriteFile w name filedata perm =
     (if name = [] then (Some (Errno ENOENT), w\<lparr>trace := trace w @ [EvWriteFile [] perm]\<rparr>)
      else WriteFile w (to_path name) filedata perm)"

text \<open>
  A path is pinned when a mount point lies at it or below it; it has a child when
  an entry of the filesystem lies strictly below it.
\<close>

definition pinned :: "path list \<Rightarrow> path \<Rightarrow> bool" where
  "pinned ms q = list_ex (\<lambda>m. prefix q m) ms"

definition has_child :: "filesystem \<Rightarrow> path \<Rightarrow> bool" where
  "has_child f q = list_ex (\<lambda>e. strict_prefix q (fst e)) f"

text \<open>
  \<open>os.Remove\<close>: removes a file or an empty directory; a path that does not exist, a
  mount point and a directory that is not empty are errors.
\<close>

definition os_Remove :: "world \<Rightarrow> string \<Rightarrow> error option \<times> world" where
  "os_Remove w name =
     (let w' = w\<lparr>trace := trace w @ [EvRemove name]\<rparr>; p = to_path name
      in if name = [] then (Some (Errno ENOENT), w')
         else if p = [] then (Some (Errno EBUSY), w')
         else if \<not> Exist (fs w) p then (Some (Errno ENOENT), w')
         else if pinned (mounted w) p then (Some (Errno EBUSY), w')
         else if has_child (fs w) p then (Some (Errno ENOTEMPTY), w')
         else (None, w'\<lparr>fs := filter (\<lambda>e. fst e \<noteq> p) (fs w)\<rparr>))"

text \<open>
  \<open>os.RemoveAll\<close>: removes the path and everything below it that it can, that is
  everything that is not pinned by a mount point, and reports an error when something
  is left. The empty path is no error, a path that ends in a dot is one.
\<close>

definition ends_with_dot :: "string \<Rightarrow> bool" where
  "ends_with_dot name = (name = ''.'' \<or> suffix ''/.'' name)"

definition os_RemoveAll :: "world \<Rightarrow> string \<Rightarrow> error option \<times> world" where
  "os_RemoveAll w name =
     (let w' = w\<lparr>trace := trace w @ [EvRemoveAll name]\<rparr>; p = to_path name;
          f = filter (\<lambda>e. \<not> (prefix p (fst e) \<and> \<not> pinned (mounted w) (fst e))) (fs w)
      in if name = [] then (None, w')
         else if ends_with_dot name then (Some (Errno EINVAL), w')
         else (if list_ex (\<lambda>e. prefix p (fst e)) f then Some (Errno EBUSY) else None,
               w'\<lparr>fs := f\<rparr>))"

text \<open>
  The system calls \<open>unshare\<close>, \<open>mount\<close> with \<open>MS_BIND\<close> and \<open>umount2\<close>. A bind mount
  puts its target on the stack of mount points; \<open>umount2\<close> takes the topmost mount off a
  mount point and fails on a path that is none.
\<close>

definition unshare :: "world \<Rightarrow> 64 word \<Rightarrow> nat \<times> world" where
  "unshare w flags = (unshare_errno w flags, w\<lparr>trace := trace w @ [EvUnshare flags]\<rparr>)"

definition bind_mount :: "world \<Rightarrow> string \<Rightarrow> string \<Rightarrow> nat \<times> world" where
  "bind_mount w source target =
     (let w' = w\<lparr>trace := trace w @ [EvMount source target]\<rparr>;
          errno = mount_errno w (to_path target)
      in if errno \<noteq> 0 then (errno, w')
         else (0, w'\<lparr>mounted := to_path target # mounted w\<rparr>))"

definition umount2 :: "world \<Rightarrow> string \<Rightarrow> nat \<times> world" where
  "umount2 w name =
     (let w' = w\<lparr>trace := trace w @ [EvUmount name]\<rparr>; p = to_path name
      in if \<not> Exist (fs w) p then (ENOENT, w')
         else if p \<in> set (mounted w) then (0, w'\<lparr>mounted := remove1 p (mounted w)\<rparr>)
         else (EINVAL, w'))"

text \<open>
  Signals to a child process through its handle, and waiting for it. A signal to a
  reaped process is an error; SIGKILL ends a process, SIGTERM ends one that does not
  ignore it. Waiting reaps an exited process, is an error on a reaped one, and does
  not return while the process runs.
\<close>

definition Process_Signal :: "world \<Rightarrow> nat \<Rightarrow> signal \<Rightarrow> error option \<times> world" where
  "Process_Signal w h sig =
     (let w' = w\<lparr>trace := trace w @ [EvSignal h sig]\<rparr>
      in case children w h of
           Reaped \<Rightarrow> (Some ProcessDone, w')
         | Exited \<Rightarrow> (None, w')
         | Running \<Rightarrow> (None, w'\<lparr>children := (children w)(h := Exited)\<rparr>)
         | Deaf \<Rightarrow> (None, if sig = SIGKILL then w'\<lparr>children := (children w)(h := Exited)\<rparr>
                          else w'))"

definition Process_Kill :: "world \<Rightarrow> nat \<Rightarrow> error option \<times> world" where
  "Process_Kill w h = Process_Signal w h SIGKILL"

definition Process_Wait :: "world \<Rightarrow> nat \<Rightarrow> (error option \<times> world) outcome" where
  "Process_Wait w h =
     (let w' = w\<lparr>trace := trace w @ [EvWait h]\<rparr>
      in case children w h of
           Reaped \<Rightarrow> Returns (Some ProcessDone, w')
         | Exited \<Rightarrow> Returns (None, w'\<lparr>children := (children w)(h := Reaped)\<rparr>)
         | Running \<Rightarrow> Blocks
         | Deaf \<Rightarrow> Blocks)"

section \<open>Network namespaces (package \<open>netns\<close>)\<close>

definition CLONE_NEWNS :: "64 word" where "CLONE_NEWNS = 0x00020000"
definition CLONE_NEWUTS :: "64 word" where "CLONE_NEWUTS = 0x04000000"
definition CLONE_NEWIPC :: "64 word" where "CLONE_NEWIPC = 0x08000000"
definition CLONE_NEWUSER :: "64 word" where "CLONE_NEWUSER = 0x10000000"
definition CLONE_NEWPID :: "64 word" where "CLONE_NEWPID = 0x20000000"
definition CLONE_NEWNET :: "64 word" where "CLONE_NEWNET = 0x40000000"
definition CLONE_NEWCGROUP :: "64 word" where "CLONE_NEWCGROUP = 0x02000000"

record NetworkNamespace =
  ContainerID :: string
  RuntimeDir :: string
  NetNSMountPath :: string
  SlirpAPISocket :: string
  slirpProcess :: "nat option"

definition New :: "world \<Rightarrow> string \<Rightarrow> (error + NetworkNamespace) \<times> world" where
  "New w containerID =
     (let runtimeDir =
            Join (Join (Join [''run'', ''user''] (show_nat (Getuid w))) ''lilipod'') containerID
      in case MkdirAll w runtimeDir 448 of
           (Some err, w') \<Rightarrow> (Inl (Wrap ''failed to create runtime directory'' err), w')
         | (None, w') \<Rightarrow>
             (Inr \<lparr> ContainerID = containerID,
                    RuntimeDir = render runtimeDir,
                    NetNSMountPath = render (Join runtimeDir ''netns''),
                    SlirpAPISocket = render (Join runtimeDir ''slirp.sock''),
                    slirpProcess = None \<rparr>, w'))"

definition Setup :: "NetworkNamespace \<Rightarrow> world \<Rightarrow> error option \<times> world" where
  "Setup n w =
     (case unshare w CLONE_NEWNET of (errno, w1) \<Rightarrow>
        if errno \<noteq> 0
        then (Some (Wrap ''failed to unshare network namespace'' (Errno errno)), w1)
        else
          let netnsProcPath = ''/proc/'' @ show_int (Getpid w1) @ ''/ns/net''
          in case os_WriteFile w1 (NetNSMountPath n) [] 384 of
               (Some err, w2) \<Rightarrow> (Some (Wrap ''failed to create netns mount point'' err), w2)
             | (None, w2) \<Rightarrow>
                 (case bind_mount w2 netnsProcPath (NetNSMountPath n) of (errno, w3) \<Rightarrow>
                    if errno \<noteq> 0
                    then (Some (Wrap ''failed to bind mount network namespace'' (Errno errno)),
                          snd (os_Remove w3 (NetNSMountPath n)))
                    else (None, w3)))"

definition StartSlirp ::
  "NetworkNamespace \<Rightarrow> world \<Rightarrow> int \<Rightarrow> error option \<times> NetworkNamespace \<times> world" where
  "StartSlirp n w targetPid =
     (let slirpPath = Join (LilipodBinPath w) ''slirp4netns''
      in if \<not> Exist (fs w) slirpPath
         then (Some (Wrap ''slirp4netns binary not found'' (Errno ENOENT)), n, w)
         else
           let args = [''--configure'', ''--mtu=65520'', ''-r'', ''/etc/resolv.conf'',
                       ''-a'', SlirpAPISocket n, show_int targetPid, ''tap0''];
               w' = w\<lparr>trace := trace w @ [EvStartSlirp (render slirpPath) args]\<rparr>
           in case start_process w args of
                None \<Rightarrow> (Some (Msg ''failed to start slirp4netns''), n, w')
              | Some h \<Rightarrow> (None, n\<lparr>slirpProcess := Some h\<rparr>, w'))"

text \<open>
  The first step of \<open>Cleanup\<close>: SIGTERM to the slirp process, SIGKILL when that fails,
  then waiting for the process; the result of waiting is dropped.
\<close>

definition terminate_slirp :: "nat \<Rightarrow> world \<Rightarrow> (error list \<times> world) outcome" where
  "terminate_slirp h w =
     (case Process_Signal w h SIGTERM of (r1, w1) \<Rightarrow>
        let step =
              (case r1 of
                 None \<Rightarrow> ([], w1)
               | Some err \<Rightarrow>
                   (case Process_Kill w1 h of (r2, w2) \<Rightarrow>
                      ([Wrap ''failed to send SIGTERM to slirp4netns'' err]
                         @ (case r2 of None \<Rightarrow> []
                            | Some err2 \<Rightarrow> [Wrap ''failed to kill slirp4netns'' err2]),
                       w2)))
        in case Process_Wait (snd step) h of
             Returns (r3, w3) \<Rightarrow> Returns (fst step, w3)
           | Panics \<Rightarrow> Panics
           | Blocks \<Rightarrow> Blocks)"

text \<open>
  \<open>Cleanup\<close>. Taking the address of the first byte of the mount path panics when the
  path is the empty string. Every step after that runs whatever the steps before it
  returned, and the errors are collected in order.
\<close>

definition Cleanup :: "NetworkNamespace \<Rightarrow> world \<Rightarrow> (error option \<times> world) outcome" where
  "Cleanup n w =
     (case (case slirpProcess n of None \<Rightarrow> Returns ([], w) | Some h \<Rightarrow> terminate_slirp h w) of
        Panics \<Rightarrow> Panics
      | Blocks \<Rightarrow> Blocks
      | Returns (errors1, w1) \<Rightarrow>
          if NetNSMountPath n = [] then Panics
          else
            case umount2 w1 (NetNSMountPath n) of (errno, w2) \<Rightarrow>
            case os_Remove w2 (NetNSMountPath n) of (r3, w3) \<Rightarrow>
            case os_Remove w3 (SlirpAPISocket n) of (r4, w4) \<Rightarrow>
            case os_RemoveAll w4 (RuntimeDir n) of (r5, w5) \<Rightarrow>
              let errors =
                    errors1
                    @ (if errno \<noteq> 0
                       then [Wrap ''failed to unmount network namespace'' (Errno errno)] else [])
                    @ (case r3 of None \<Rightarrow> []
                       | Some err \<Rightarrow> [Wrap ''failed to remove netns mount point'' err])
                    @ (case r4 of None \<Rightarrow> []
                       | Some err \<Rightarrow> if IsNotExist err then []
                                     else [Wrap ''failed to remove slirp API socket'' err])
                    @ (case r5 of None \<Rightarrow> []
                       | Some err \<Rightarrow> [Wrap ''failed to remove runtime directory'' err])
              in Returns (if length errors > 0 then Some (Errors errors) else None, w5))"

section \<open>Networking helpers (\<open>setupNetworking\<close>, \<open>cleanupNetworking\<close>)\<close>

definition setupNetworking ::
  "Config \<Rightarrow> world \<Rightarrow> ((error + NetworkNamespace option) \<times> world) outcome" where
  "setupNetworking config w =
     (if Network config \<noteq> ''private'' then Returns (Inr None, w)
      else
        case New w (ID config) of
          (Inl err, w1) \<Rightarrow> Returns (Inl (Wrap ''failed to create network namespace'' err), w1)
        | (Inr ns, w1) \<Rightarrow>
            (case Setup ns w1 of
               (Some err, w2) \<Rightarrow>
                 (case Cleanup ns w2 of
                    Returns (r, w3) \<Rightarrow>
                      Returns (Inl (Wrap ''failed to set up network namespace'' err), w3)
                  | Panics \<Rightarrow> Panics
                  | Blocks \<Rightarrow> Blocks)
             | (None, w2) \<Rightarrow> Returns (Inr (Some ns), w2)))"

definition cleanupNetworking ::
  "NetworkNamespace option \<Rightarrow> world \<Rightarrow> (error option \<times> world) outcome" where
  "cleanupNetworking ns w =
     (case ns of
        None \<Rightarrow> Returns (None, w)
      | Some n \<Rightarrow>
          (case Cleanup n w of
             Returns (Some err, w') \<Rightarrow>
               Returns (Some (Wrap ''failed to clean up network namespace'' err), w')
           | Returns (None, w') \<Rightarrow> Returns (None, w')
           | Panics \<Rightarrow> Panics
           | Blocks \<Rightarrow> Blocks))"

section \<open>The enter command (\<open>generateEnterCommand\<close>)\<close>

definition keep_id :: "world \<Rightarrow> Config \<Rightarrow> bool" where
  "keep_id w config = (Userns config = KeepID \<and> ROOTFUL w \<noteq> TrueString)"

text \<open>
  The variable \<open>cloneFlags\<close> when \<open>unshare\<close> is called: mount and UTS, the user namespace
  for keep-id outside rootful mode, and IPC when private.
\<close>

definition cloneFlags_at_unshare :: "world \<Rightarrow> Config \<Rightarrow> 64 word" where
  "cloneFlags_at_unshare w config =
     (let cloneFlags = 0 OR (CLONE_NEWNS OR CLONE_NEWUTS);
          cloneFlags = (if keep_id w config then cloneFlags OR CLONE_NEWUSER else cloneFlags);
          cloneFlags = (if Ipc config = Private then cloneFlags OR CLONE_NEWIPC else cloneFlags)
      in cloneFlags)"

text \<open>
  The variable \<open>cloneFlags\<close> when the function returns: after the call of \<open>unshare\<close> and
  the network setup, PID and cgroup are added when private. Nothing reads the variable
  after that.
\<close>

definition cloneFlags_at_return :: "world \<Rightarrow> Config \<Rightarrow> 64 word" where
  "cloneFlags_at_return w config =
     (let cloneFlags = cloneFlags_at_unshare w config;
          cloneFlags = (if Pid config = Private then cloneFlags OR CLONE_NEWPID else cloneFlags);
          cloneFlags =
            (if Cgroup config = Private then cloneFlags OR CLONE_NEWCGROUP else cloneFlags)
      in cloneFlags)"

text \<open>
  The command with its process attributes. \<open>json.Marshal\<close> does not fail on a record of
  strings and string slices, so the branch for an invalid configuration is not
  reachable.
\<close>

definition enter_cmd :: "world \<Rightarrow> Config \<Rightarrow> Cmd" where
  "enter_cmd w config =
     \<lparr> Path = Args0 w,
       Args = [Str (Args0 w), Str ''--log-level'', Str (LogLevel w), Str ''enter'',
               Str ''--config'', ConfigJSON config],
       Attr = Some \<lparr> Setsid = True, Setpgid = True, Foreground = False,
                     Credential = Some (0, 0), UidMappings = [], GidMappings = [] \<rparr> \<rparr>"

text \<open>
  Modelled from the spec: \<open>procutils.SetProcessKeepIDMaps\<close>, which is not among the
  sources, arranges that the UID and GID maps are written when the child starts; it
  can fail.
\<close>

definition SetProcessKeepIDMaps :: "world \<Rightarrow> Cmd \<Rightarrow> string \<Rightarrow> string \<Rightarrow> error + Cmd" where
  "SetProcessKeepIDMaps w cmd uidMaps gidMaps =
     (case keepid_error w of
        Some err \<Rightarrow> Inl err
      | None \<Rightarrow>
          Inr (cmd\<lparr>Attr := map_option (\<lambda>a. a\<lparr>UidMappings := uidMaps, GidMappings := gidMaps\<rparr>)
                              (Attr cmd)\<rparr>))"

text \<open>
  The network part of \<open>generateEnterCommand\<close>: for a private network, a network
  namespace is set up and \<open>slirp4netns\<close> is started on the PID of the calling process.
  \<open>setupNetworking\<close> returns no namespace only for a network that is not private, where
  the call of \<open>StartSlirp\<close> on a nil pointer would panic.
\<close>

definition enter_network :: "Config \<Rightarrow> world \<Rightarrow> (error option \<times> world) outcome" where
  "enter_network config w =
     (if Network config = Private then
        case setupNetworking config w of
          Panics \<Rightarrow> Panics
        | Blocks \<Rightarrow> Blocks
        | Returns (Inl err, w1) \<Rightarrow> Returns (Some err, w1)
        | Returns (Inr None, w1) \<Rightarrow> Panics
        | Returns (Inr (Some ns), w1) \<Rightarrow>
            (case StartSlirp ns w1 (Getpid w1) of
               (Some err, ns', w2) \<Rightarrow>
                 (case cleanupNetworking (Some ns') w2 of
                    Returns (r, w3) \<Rightarrow>
                      Returns (Some (Wrap ''failed to start slirp4netns'' err), w3)
                  | Panics \<Rightarrow> Panics
                  | Blocks \<Rightarrow> Blocks)
             | (None, ns', w2) \<Rightarrow> Returns (None, w2))
      else Returns (None, w))"

definition generateEnterCommand :: "Config \<Rightarrow> world \<Rightarrow> ((error + Cmd) \<times> world) outcome" where
  "generateEnterCommand config w =
     (let cmd = enter_cmd w config;
          cloneFlags = cloneFlags_at_unshare w config
      in case (if cloneFlags \<noteq> 0 then unshare w cloneFlags else (0, w)) of (errno, w1) \<Rightarrow>
           if errno \<noteq> 0
           then Returns (Inl (Wrap ''failed to unshare namespaces'' (Errno errno)), w1)
           else
             case enter_network config w1 of
               Panics \<Rightarrow> Panics
             | Blocks \<Rightarrow> Blocks
             | Returns (Some err, w2) \<Rightarrow> Returns (Inl err, w2)
             | Returns (None, w2) \<Rightarrow>
                 let cloneFlags = cloneFlags_at_return w2 config
                 in if keep_id w2 config then
                      let uidMaps = (if Uidmap config = [] then ''1000:100000:65536''
                                     else Uidmap config);
                          gidMaps = (if Gidmap config = [] then ''1000:100000:65536''
                                     else Gidmap config)
                      in case SetProcessKeepIDMaps w2 cmd uidMaps gidMaps of
                           Inl err \<Rightarrow> Returns (Inl err, w2)
                         | Inr cmd' \<Rightarrow> Returns (Inr cmd', w2)
                    else Returns (Inr cmd, w2))"

section \<open>\<open>Start\<close>\<close>

text \<open>
  The injection of the PTY agent: when no entry exists at the agent path inside the
  root filesystem, a directory is made at the root filesystem joined with the base name
  of the agent path, and the agent is written at the agent path.
\<close>

definition inject_agent :: "world \<Rightarrow> path \<Rightarrow> string \<Rightarrow> error option \<times> world" where
  "inject_agent w path ptyFile =
     (if \<not> Exist (fs w) (Join path (PtyAgentPath w)) then
        case MkdirAll w (Join path (Base (PtyAgentPath w))) 493 of
          (Some err, w1) \<Rightarrow> (Some err, w1)
        | (None, w1) \<Rightarrow> WriteFile w1 (Join path (PtyAgentPath w1)) ptyFile 493
      else (None, w))"

text \<open>
  Modelled from the spec: \<open>procutils.RunWithTTY\<close>, \<open>RunInteractive\<close> and
  \<open>RunDetached\<close>, which are not among the sources, launch the container process with
  the given command; time passes, and the process table that \<open>/proc\<close> shows afterwards
  is the one of the later time.
\<close>

definition launch :: "world \<Rightarrow> launch_mode \<Rightarrow> Cmd \<Rightarrow> error option \<times> world" where
  "launch w mode cmd =
     (launch_error w mode, w\<lparr>clock := clock w + 1, trace := trace w @ [EvLaunch mode cmd]\<rparr>)"

text \<open>
  \<open>Start\<close> from the network setup on. The deferred cleanup reads the variable \<open>err\<close> of
  \<open>Start\<close>, which only the network setup and \<open>generateEnterCommand\<close> assign: the errors
  of the launch, of \<open>GetPid\<close> and of \<open>StartSlirp\<close> live in variables of their own.
\<close>

definition start_container ::
  "bool \<Rightarrow> bool \<Rightarrow> Config \<Rightarrow> path \<Rightarrow> world \<Rightarrow> (error option \<times> world) outcome" where
  "start_container interactive tty config path w =
     (case (if Network config = ''private'' then setupNetworking config w
            else Returns (Inr None, w)) of
        Panics \<Rightarrow> Panics
      | Blocks \<Rightarrow> Blocks
      | Returns (Inl err, w1) \<Rightarrow> Returns (Some err, w1)
      | Returns (Inr ns, w1) \<Rightarrow>
          (case generateEnterCommand config w1 of
             Panics \<Rightarrow> Panics
           | Blocks \<Rightarrow> Blocks
           | Returns (Inl err, w2) \<Rightarrow>
               (case cleanupNetworking ns w2 of
                  Returns (r, w3) \<Rightarrow> Returns (Some err, w3)
                | Panics \<Rightarrow> Panics
                | Blocks \<Rightarrow> Blocks)
           | Returns (Inr cmd, w2) \<Rightarrow>
               (case (if tty then launch w2 WithTTY (cmd\<lparr>Args := Args cmd @ [Str ''--tty'']\<rparr>)
                      else if interactive then launch w2 Interactive cmd
                      else launch w2 (Detached (Join path ''../current-logs'')) cmd) of
                  (startErr, w3) \<Rightarrow>
                    (case ns of
                       None \<Rightarrow> Returns (startErr, w3)
                     | Some n \<Rightarrow>
                         (case GetPid w3 (ID config) of
                            (Inl err, w4) \<Rightarrow>
                              Returns (Some (Wrap ''failed to get container PID'' err), w4)
                          | (Inr pid, w4) \<Rightarrow>
                              (case StartSlirp n w4 pid of
                                 (Some err, n', w5) \<Rightarrow>
                                   Returns (Some (Wrap ''failed to start slirp4netns'' err), w5)
                               | (None, n', w5) \<Rightarrow> Returns (startErr, w5)))))))"

definition Start :: "bool \<Rightarrow> bool \<Rightarrow> Config \<Rightarrow> world \<Rightarrow> (error option \<times> world) outcome" where
  "Start interactive tty config w =
     (let path = GetRootfsDir w (ID config)
      in case ReadFile (fs w) (Join (LilipodBinPath w) ''pty'') of
           Inl err \<Rightarrow> Returns (Some err, w)
         | Inr ptyFile \<Rightarrow>
             (case inject_agent w path ptyFile of
                (Some err, w1) \<Rightarrow> Returns (Some err, w1)
              | (None, w1) \<Rightarrow>
                  if \<not> Exist (fs w1) (Join path (PtyAgentPath w1))
                  then Returns (Some (Msg ''failed to inject agent''), w1)
                  else start_container interactive tty config path w1))"

section \<open>Concrete hosts and records\<close>

text \<open>
  A host with the container \<open>web\<close>, its root filesystem with and without a directory
  \<open>/sbin\<close>, and the two binaries of the program. After the launch, \<open>/proc\<close> shows the
  container as process 4242.
\<close>

definition web_dir :: path where
  "web_dir = [''home'', ''u'', ''containers'', ''2567a5ec9705eb7ac2c984033e06189d'']"

definition bare_world :: world where
  "bare_world = web_world \<lparr>
     fs := fs web_world @
       [(web_dir @ [''rootfs''], Dir 493),
        ([''home'', ''u'', ''bin''], Dir 493),
        ([''home'', ''u'', ''bin'', ''pty''], File 493 ''PTY''),
        ([''home'', ''u'', ''bin'', ''slirp4netns''], File 493 ''SLIRP'')],
     proc := (\<lambda>t. if t = 0 then Some []
                   else Some [(''4242'', Some ''id=2567a5ec9705eb7ac2c984033e06189d'')]) \<rparr>"

definition host_world :: world where
  "host_world = bare_world \<lparr> fs := fs bare_world @ [(web_dir @ [''rootfs'', ''sbin''], Dir 493)] \<rparr>"

text \<open>
  The record \<open>web\<close> with host networking and private PID and cgroup namespaces, and
  with a private network.
\<close>

definition isolated_config :: Config where
  "isolated_config = web_config \<lparr> Userns := ''host'', Ipc := ''host'', Pid := ''private'',
     Cgroup := ''private'', Network := ''host'' \<rparr>"

definition private_config :: Config where
  "private_config = web_config \<lparr> Userns := ''host'', Ipc := ''host'', Pid := ''host'',
     Cgroup := ''host'', Network := ''private'' \<rparr>"

text \<open>
  The order of two kinds of events in a trace: the start of \<open>slirp4netns\<close>, with the
  PID argument of its command line, and the launch of the container process.
\<close>

datatype step = SlirpOn string | Launched


definition result_world :: "('a \<times> world) outcome \<Rightarrow> world option" where
  "result_world r = (case r of Returns (x, w) \<Rightarrow> Some w | Panics \<Rightarrow> None | Blocks \<Rightarrow> None)"

section \<open>Inspection (\<open>GetContainerInfo\<close>, \<open>Inspect\<close>)\<close>

text \<open>
  Modelled from the spec: \<open>utils.LoadConfig\<close>, which is not among the sources, loads
  the record stored at a path; a file that cannot be read and a file that does not
  decode to a record are errors.
\<close>

definition LoadConfig :: "world \<Rightarrow> path \<Rightarrow> error + Config" where
  "LoadConfig w configPath =
     (case ReadFile (fs w) configPath of
        Inl err \<Rightarrow> Inl err
      | Inr filedata \<Rightarrow>
          (case parse_config w filedata of
             None \<Rightarrow> Inl (CorruptConfig configPath)
           | Some config \<Rightarrow> Inr config))"

text \<open>Running the program's own \<open>rm\<close> command on a container.\<close>

definition run_rm :: "world \<Rightarrow> string \<Rightarrow> error option \<times> world" where
  "run_rm w container = (rm_result w container, w\<lparr>trace := trace w @ [EvRm container]\<rparr>)"

text \<open>
  \<open>GetContainerInfo\<close> returns a record, or no record and no error (\<open>Inr None\<close>), or an
  error.
\<close>

definition GetContainerInfo ::
  "string \<Rightarrow> world \<Rightarrow> string \<Rightarrow> bool \<Rightarrow> (string \<times> string) list
     \<Rightarrow> (error + Config option) \<times> world" where
  "GetContainerInfo sep w container withSize filters =
     (let configPath = Join (Join (ContainerDir w) container) ''config''
      in case LoadConfig w configPath of
           Inl err \<Rightarrow>
             (case run_rm w container of
                (Some rmErr, w') \<Rightarrow> (Inl rmErr, w')
              | (None, w') \<Rightarrow> (Inr None, w'))
         | Inr config \<Rightarrow>
             if \<not> filterContainer sep config filters then (Inr None, w)
             else
               case IsRunning w (Names config) of (isRunning, w1) \<Rightarrow>
                 let state = (if isRunning then ''running'' else ''stopped'')
                 in case (if withSize then disc_usage w1 (Join (ContainerDir w1) container)
                          else Inr []) of
                      Inl err \<Rightarrow> (Inl err, w1)
                    | Inr directorySize \<Rightarrow>
                        (Inr (Some (config\<lparr>Status := state, Size := directorySize\<rparr>)), w1))"

text \<open>The loop of \<open>Inspect\<close> over the containers, with the text printed so far.\<close>

fun inspect_loop ::
  "world \<Rightarrow> string list \<Rightarrow> bool \<Rightarrow> string \<Rightarrow> string \<Rightarrow> (error + string) \<times> world" where
  "inspect_loop w [] withSize format result = (Inr result, w)"
| "inspect_loop w (c # cs) withSize format result =
     (let container = GetID w c;
          configPath = Join (Join (ContainerDir w) container) ''config''
      in case LoadConfig w configPath of
           Inl err \<Rightarrow> (Inl err, w)
         | Inr config \<Rightarrow>
             (case IsRunning w (Names config) of (isRunning, w1) \<Rightarrow>
                let config1 = config\<lparr>Status := (if isRunning then ''running'' else ''stopped'')\<rparr>
                in case (if withSize
                         then (case disc_usage w1 (Join (ContainerDir w1) container) of
                                 Inl err \<Rightarrow> Inl err
                               | Inr directorySize \<Rightarrow> Inr (config1\<lparr>Size := directorySize\<rparr>))
                         else Inr config1) of
                     Inl err \<Rightarrow> (Inl err, w1)
                   | Inr config2 \<Rightarrow>
                       (case render_config w1 format config2 of
                          Inl err \<Rightarrow> (Inl err, w1)
                        | Inr out \<Rightarrow>
                            inspect_loop w1 cs withSize format
                              (result @ out @ (if format = [] then [CHR 0x0A] else [])))))"

definition Inspect :: "world \<Rightarrow> string list \<Rightarrow> bool \<Rightarrow> string \<Rightarrow> (error + string) \<times> world" where
  "Inspect w containers withSize format = inspect_loop w containers withSize format []"

text \<open>
  The host with the container \<open>web\<close> whose configuration file does not decode, and
  the path of that file.
\<close>

definition corrupt_world :: world where
  "corrupt_world = web_world \<lparr> fs := fs web_world @ [(web_dir @ [''config''], File 420 ''{'')] \<rparr>"

section \<open>Properties of filtering\<close>

lemma Split_example: "strings_Split ''a=1,b=2'' '','' = [''a=1'', ''b=2'']"
  by (simp add: strings_Split_def)

text \<open>
  Claim C4. A record matches a filter map with recognised keys if and only if every
  supplied filter finds a match. On the record \<open>web\<close> with labels \<open>a=1\<close> and \<open>b=2\<close>, the
  map \<open>{label: "a=1,b=2", name: "other"}\<close> is accepted although the \<open>name\<close> filter finds no
  match: the label filter is counted twice, and the count reaches the number of filters.
\<close>

theorem filterContainer_overcounts_labels:
  "filterContainer '','' web_config [(''label'', ''a=1,b=2''), (''name'', ''other'')] = True
   \<and> filter_finds_match '','' web_config (''name'', ''other'') = False
   \<and> distinct (map fst [(''label'', ''a=1,b=2''), (''name'', ''other'')])
   \<and> set (map fst [(''label'', ''a=1,b=2''), (''name'', ''other'')])
       \<subseteq> {''label'', ''status'', ''name'', ''id''}"
  by (simp add: filterContainer_def filter_step_def filter_finds_match_def label_matches_def
      strings_Split_def web_config_def empty_config_def)

text \<open>
  Claim C5. Adding a filter to the map never lets more containers through. The record
  \<open>web\<close> does not match \<open>{name: "other"}\<close>, and matches that map once the filter
  \<open>label: "a=1,b=2"\<close> is added to it.
\<close>

theorem filterContainer_not_monotone:
  "filterContainer '','' web_config [(''name'', ''other'')] = False
   \<and> filterContainer '','' web_config [(''name'', ''other''), (''label'', ''a=1,b=2'')] = True
   \<and> ''label'' \<notin> set (map fst [(''name'', ''other'')])"
  by (simp add: filterContainer_def filter_step_def label_matches_def
      strings_Split_def web_config_def empty_config_def)


section \<open>Properties of MD5 and of identity\<close>

lemma md5_blocks_single: "length ws = 16 \<Longrightarrow> md5_blocks st ws = md5_block st ws"
  by (subst md5_blocks.simps, subst md5_blocks.simps) simp

lemma md5_pad_web:
  "le_words (md5_pad (map of_char ''web'')) =
     [0x80626577, 0, 0, 0, 0, 0, 0, 0, 0, 0, 0, 0, 0, 0, 0x18, 0]"
  by (simp add: md5_pad_def le_bytes8_def le_bytes4_def zero_bytes.simps)

lemma md5_block_web:
  "md5_block md5_init [0x80626577, 0, 0, 0, 0, 0, 0, 0, 0, 0, 0, 0, 0, 0, 0x18, 0]
     = (0xeca56725, 0x7aeb0597, 0x384c9c2, 0x9d18063e)"
  by (simp add: md5_rounds.simps md5_block_def md5_init_def md5_F_def md5_g_def md5_K_def
      md5_S_def rotl32_def)

lemma md5_hex_web: "md5_hex ''web'' = ''2567a5ec9705eb7ac2c984033e06189d''"
proof -
  have "md5_blocks md5_init (le_words (md5_pad (map of_char ''web'')))
          = (0xeca56725, 0x7aeb0597, 0x384c9c2, 0x9d18063e)"
    by (simp only: md5_pad_web md5_blocks_single [symmetric] md5_block_web [symmetric])
       (simp add: md5_blocks_single)
  then show ?thesis
    by (simp add: md5_hex_def md5_Sum_def hex_bytes_def hex_digit_def le_bytes4_def)
qed

lemma md5_pad_web_id:
  "le_words (md5_pad (map of_char ''2567a5ec9705eb7ac2c984033e06189d'')) =
     [0x37363532, 0x63653561, 0x35303739, 0x61376265, 0x39633263, 0x33303438,
      0x36306533, 0x64393831, 0x80, 0, 0, 0, 0, 0, 0x100, 0]"
  by (simp add: md5_pad_def le_bytes8_def le_bytes4_def zero_bytes.simps)

lemma md5_block_web_id:
  "md5_block md5_init
     [0x37363532, 0x63653561, 0x35303739, 0x61376265, 0x39633263, 0x33303438,
      0x36306533, 0x64393831, 0x80, 0, 0, 0, 0, 0, 0x100, 0]
     = (0xdb17771d, 0x6515e09b, 0x60e81c47, 0xb79b1cf7)"
  by (simp add: md5_rounds.simps md5_block_def md5_init_def md5_F_def md5_g_def md5_K_def
      md5_S_def rotl32_def)

lemma md5_hex_web_id:
  "md5_hex ''2567a5ec9705eb7ac2c984033e06189d'' = ''1d7717db9be01565471ce860f71c9bb7''"
proof -
  have "md5_blocks md5_init
          (le_words (md5_pad (map of_char ''2567a5ec9705eb7ac2c984033e06189d'')))
          = (0xdb17771d, 0x6515e09b, 0x60e81c47, 0xb79b1cf7)"
    by (simp only: md5_pad_web_id) (simp add: md5_blocks_single md5_block_web_id)
  then show ?thesis
    by (simp add: md5_hex_def md5_Sum_def hex_bytes_def hex_digit_def le_bytes4_def)
qed

lemma length_hex_bytes: "length (hex_bytes bs) = 2 * length bs"
  by (induction bs) (simp_all add: hex_bytes_def)

lemma length_md5_out: "length (md5_out st) = 16"
  by (cases st) (simp add: le_bytes4_def)

lemma hex_digit_in: "hex_digit n \<in> set ''0123456789abcdef''"
proof -
  have "n mod 16 < length ''0123456789abcdef''" by simp
  then show ?thesis unfolding hex_digit_def by (rule nth_mem)
qed

lemma set_hex_bytes: "set (hex_bytes bs) \<subseteq> set ''0123456789abcdef''"
proof (induction bs)
  case Nil
  show ?case by (simp add: hex_bytes_def)
next
  case (Cons b bs)
  have "hex_bytes (b # bs) = [hex_digit (b div 16), hex_digit b] @ hex_bytes bs"
    by (simp add: hex_bytes_def)
  with Cons hex_digit_in [of "b div 16"] hex_digit_in [of b] show ?case
    by (simp del: set_simps(2)) auto
qed

lemma length_md5_hex: "length (md5_hex s) = 32"
  by (simp add: md5_hex_def md5_Sum_def length_hex_bytes length_md5_out)

lemma set_md5_hex: "set (md5_hex s) \<subseteq> set ''0123456789abcdef''"
  by (simp only: md5_hex_def set_hex_bytes)

lemma no_web_dir: "\<not> Exist (fs empty_world) (Join (ContainerDir empty_world) ''web'')"
  by (simp add: Exist_def empty_world_def Join_def strings_Split_def)

lemma no_web_id_dir:
  "\<not> Exist (fs empty_world)
       (Join (ContainerDir empty_world) ''2567a5ec9705eb7ac2c984033e06189d'')"
  by (simp add: Exist_def empty_world_def Join_def strings_Split_def)

text \<open>
  Claim C6 as stated: resolving twice is resolving once, for every name. On a host
  without any container, \<open>web\<close> resolves to its digest, and the digest, which names no
  directory either, is hashed once more.
\<close>

theorem GetID_twice_counterexample:
  "GetID empty_world (GetID empty_world ''web'') \<noteq> GetID empty_world ''web''"
proof -
  have 1: "GetID empty_world ''web'' = ''2567a5ec9705eb7ac2c984033e06189d''"
    using no_web_dir by (simp only: GetID_def md5_hex_web if_False)
  have 2: "GetID empty_world ''2567a5ec9705eb7ac2c984033e06189d''
             = ''1d7717db9be01565471ce860f71c9bb7''"
    using no_web_id_dir by (simp only: GetID_def md5_hex_web_id if_False)
  show ?thesis by (simp only: 1 2) simp
qed

text \<open>
  Claim C6, amended. Resolving twice is resolving once for every name whose resolved ID
  names an existing container directory; a name that is itself an existing directory
  of \<open>ContainerDir\<close> is returned as it is, and every other name resolves to 32
  lower-case hexadecimal digits.
\<close>

theorem GetID_identity_stability:
  "(Exist (fs w) (Join (ContainerDir w) (GetID w N)) \<longrightarrow> GetID w (GetID w N) = GetID w N)
   \<and> (Exist (fs w) (Join (ContainerDir w) N) \<longrightarrow> GetID w N = N)
   \<and> (\<not> Exist (fs w) (Join (ContainerDir w) N) \<longrightarrow>
        length (GetID w N) = 32 \<and> set (GetID w N) \<subseteq> set ''0123456789abcdef'')"
  using set_md5_hex [of N] by (simp add: GetID_def length_md5_hex)

theorem GetID_identity_stability_witness:
  "Exist (fs web_world) (Join (ContainerDir web_world) (GetID web_world ''web''))
   \<and> GetID web_world (GetID web_world ''web'') = GetID web_world ''web''
   \<and> \<not> Exist (fs web_world) (Join (ContainerDir web_world) ''web'')
   \<and> length (GetID web_world ''web'') = 32
   \<and> Exist (fs web_world)
         (Join (ContainerDir web_world) ''2567a5ec9705eb7ac2c984033e06189d'')
   \<and> GetID web_world ''2567a5ec9705eb7ac2c984033e06189d''
         = ''2567a5ec9705eb7ac2c984033e06189d''"
proof -
  have a: "\<not> Exist (fs web_world) (Join (ContainerDir web_world) ''web'')"
    by (simp add: Exist_def web_world_def empty_world_def Join_def strings_Split_def)
  have b: "Exist (fs web_world)
             (Join (ContainerDir web_world) ''2567a5ec9705eb7ac2c984033e06189d'')"
    by (simp add: Exist_def web_world_def empty_world_def Join_def strings_Split_def)
  have c: "GetID web_world ''web'' = ''2567a5ec9705eb7ac2c984033e06189d''"
    using a by (simp only: GetID_def md5_hex_web if_False)
  from a b c GetID_identity_stability [of web_world "''web''"]
    GetID_identity_stability [of web_world "''2567a5ec9705eb7ac2c984033e06189d''"]
  show ?thesis by (simp only: c) simp
qed

section \<open>Properties of \<open>Stop\<close>\<close>

lemma GetID_trace [simp]: "GetID (w\<lparr>trace := tr\<rparr>) n = GetID w n"
  by (simp add: GetID_def)

lemma GetID_clock [simp]: "GetID (w\<lparr>clock := c\<rparr>) n = GetID w n"
  by (simp add: GetID_def)

lemma lookup_pid_trace [simp]: "lookup_pid (w\<lparr>trace := tr\<rparr>) t n = lookup_pid w t n"
  by (simp add: lookup_pid_def split: option.splits)

lemma lookup_pid_clock [simp]: "lookup_pid (w\<lparr>clock := c\<rparr>) t n = lookup_pid w t n"
  by (simp add: lookup_pid_def split: option.splits)

lemma polls_Suc: "polls name (Suc n) = [EvSleep, EvGetPid name] @ polls name n"
  by (simp add: polls_def)

lemma stop_loop_timeout:
  "(\<forall>k. 1 \<le> k \<and> k \<le> n \<longrightarrow> 1 \<le> pid_of (lookup_pid w (clock w + k) name)) \<Longrightarrow>
   stop_loop w name p (int n) =
     Kill (w\<lparr>clock := clock w + n, trace := trace w @ polls name n\<rparr>)
          (if n = 0 then p else pid_of (lookup_pid w (clock w + n) name)) SIGKILL"
proof (induction n arbitrary: w p)
  case 0
  show ?case by (subst stop_loop.simps) (simp add: polls_def)
next
  case (Suc n)
  let ?w' = "w\<lparr>clock := clock w + 1, trace := trace w @ [EvSleep, EvGetPid name]\<rparr>"
  let ?p' = "pid_of (lookup_pid w (clock w + 1) name)"
  have alive: "1 \<le> ?p'" using Suc.prems [rule_format, of 1] by simp
  have later: "\<forall>k. 1 \<le> k \<and> k \<le> n \<longrightarrow> 1 \<le> pid_of (lookup_pid ?w' (clock ?w' + k) name)"
  proof (intro allI impI)
    fix k assume "1 \<le> k \<and> k \<le> n"
    then have "1 \<le> pid_of (lookup_pid w (clock w + Suc k) name)"
      using Suc.prems [rule_format, of "Suc k"] by simp
    then show "1 \<le> pid_of (lookup_pid ?w' (clock ?w' + k) name)" by (simp add: add.assoc)
  qed
  have step: "stop_loop w name p (int (Suc n)) = stop_loop ?w' name ?p' (int n)"
    using alive by (subst stop_loop.simps) (simp add: GetPid_def Sleep_second_def)
  have last: "n \<noteq> 0 \<Longrightarrow> lookup_pid ?w' (clock ?w' + n) name = lookup_pid w (clock w + Suc n) name"
    by (simp add: add.assoc)
  show ?case
    unfolding step Suc.IH [OF later]
    by (cases "n = 0") (simp_all add: polls_Suc add.assoc)
qed

lemma stop_loop_gone:
  "1 \<le> j \<Longrightarrow> int j \<le> T \<Longrightarrow> pid_of (lookup_pid w (clock w + j) name) < 1 \<Longrightarrow>
   (\<forall>k. 1 \<le> k \<and> k < j \<longrightarrow> 1 \<le> pid_of (lookup_pid w (clock w + k) name)) \<Longrightarrow>
   stop_loop w name p T = (None, w\<lparr>clock := clock w + j, trace := trace w @ polls name j\<rparr>)"
proof (induction j arbitrary: w p T)
  case 0
  then show ?case by simp
next
  case (Suc j)
  let ?w' = "w\<lparr>clock := clock w + 1, trace := trace w @ [EvSleep, EvGetPid name]\<rparr>"
  let ?p' = "pid_of (lookup_pid w (clock w + 1) name)"
  show ?case
  proof (cases "j = 0")
    case True
    with Suc.prems show ?thesis
      by (subst stop_loop.simps) (simp add: GetPid_def Sleep_second_def polls_def)
  next
    case False
    then have alive: "1 \<le> ?p'" using Suc.prems(4) [rule_format, of 1] by simp
    have step: "stop_loop w name p T = stop_loop ?w' name ?p' (T - 1)"
      using alive Suc.prems(2) by (subst stop_loop.simps) (simp add: GetPid_def Sleep_second_def)
    have gone: "pid_of (lookup_pid ?w' (clock ?w' + j) name) < 1"
      using Suc.prems(3) by (simp add: add.assoc)
    have later: "\<forall>k. 1 \<le> k \<and> k < j \<longrightarrow> 1 \<le> pid_of (lookup_pid ?w' (clock ?w' + k) name)"
    proof (intro allI impI)
      fix k assume "1 \<le> k \<and> k < j"
      then have "1 \<le> pid_of (lookup_pid w (clock w + Suc k) name)"
        using Suc.prems(4) [rule_format, of "Suc k"] by simp
      then show "1 \<le> pid_of (lookup_pid ?w' (clock ?w' + k) name)" by (simp add: add.assoc)
    qed
    have "stop_loop ?w' name ?p' (T - 1)
            = (None, ?w'\<lparr>clock := clock ?w' + j, trace := trace ?w' @ polls name j\<rparr>)"
      using False Suc.prems(2) by (intro Suc.IH gone later) simp_all
    then show ?thesis unfolding step by (simp add: polls_Suc add.assoc)
  qed
qed

lemma GetID_web_world: "GetID web_world ''web'' = ''2567a5ec9705eb7ac2c984033e06189d''"
proof -
  have "\<not> Exist (fs web_world) (Join (ContainerDir web_world) ''web'')"
    by (simp add: Exist_def web_world_def empty_world_def Join_def strings_Split_def)
  then show ?thesis by (simp only: GetID_def md5_hex_web if_False)
qed

lemma ParseInt32_4242: "ParseInt32 ''4242'' = Some 4242"
  by (simp add: ParseInt32_def is_digit_def)

lemma lookup_pid_stubborn: "lookup_pid stubborn_world t ''web'' = Inr 4242"
proof -
  have "GetID stubborn_world ''web'' = GetID web_world ''web''"
    by (simp add: GetID_def stubborn_world_def)
  then show ?thesis
    by (simp add: lookup_pid_def GetID_web_world stubborn_world_def sublist_code ParseInt32_4242)
qed

lemma lookup_pid_dying:
  "lookup_pid dying_world t ''web''
     = (if t < 2 then Inr 4242 else Inl (NotRunning ''2567a5ec9705eb7ac2c984033e06189d''))"
proof -
  have "GetID dying_world ''web'' = GetID web_world ''web''"
    by (simp add: GetID_def dying_world_def)
  then show ?thesis
    by (simp add: lookup_pid_def GetID_web_world dying_world_def sublist_code ParseInt32_4242)
qed

text \<open>
  Claim C3. A graceful stop with a timeout of \<open>T \<ge> 1\<close> seconds of a container that
  resolves to the process \<open>p\<close>. The events that \<open>Stop\<close> adds to the trace are, in order:
  the first query of the PID and one SIGTERM to \<open>p\<close>; then one poll per second, a poll
  being a sleep of one second followed by a query of the PID. When the \<open>j\<close>-th poll
  (\<open>j \<le> T\<close>) is the first that does not resolve to a PID of at least 1 (an error of
  \<open>GetPid\<close> counts as \<open>-1\<close>), \<open>Stop\<close> returns success after these \<open>j\<close> polls, without any
  SIGKILL. When all of the first \<open>T\<close> polls resolve, one SIGKILL follows the \<open>T\<close>-th poll,
  sent to the PID that this poll found, and its result is the result of \<open>Stop\<close>. When the
  SIGTERM cannot be delivered, \<open>Stop\<close> returns that error at once.
\<close>

theorem Stop_escalation:
  assumes running: "lookup_pid w (clock w) name = Inr p"
    and timeout: "1 \<le> T"
  shows
    "(kill_errno w (clock w) p SIGTERM \<noteq> 0 \<longrightarrow>
        Stop w name False T =
          (Some (Errno (kill_errno w (clock w) p SIGTERM)),
           w\<lparr>trace := trace w @ [EvGetPid name, EvKill p SIGTERM]\<rparr>))
     \<and> (kill_errno w (clock w) p SIGTERM = 0 \<longrightarrow>
          (\<forall>j. 1 \<le> j \<and> int j \<le> T
                \<and> pid_of (lookup_pid w (clock w + j) name) < 1
                \<and> (\<forall>k. 1 \<le> k \<and> k < j \<longrightarrow> 1 \<le> pid_of (lookup_pid w (clock w + k) name))
             \<longrightarrow> Stop w name False T =
                   (None, w\<lparr>clock := clock w + j,
                             trace := trace w @ [EvGetPid name, EvKill p SIGTERM]
                                        @ polls name j\<rparr>))
          \<and> ((\<forall>k. 1 \<le> k \<and> int k \<le> T \<longrightarrow> 1 \<le> pid_of (lookup_pid w (clock w + k) name))
             \<longrightarrow> Stop w name False T =
                   Kill (w\<lparr>clock := clock w + nat T,
                           trace := trace w @ [EvGetPid name, EvKill p SIGTERM]
                                      @ polls name (nat T)\<rparr>)
                        (pid_of (lookup_pid w (clock w + nat T) name)) SIGKILL
                 \<and> trace (snd (Stop w name False T)) =
                     trace w @ [EvGetPid name, EvKill p SIGTERM] @ polls name (nat T)
                       @ [EvKill (pid_of (lookup_pid w (clock w + nat T) name)) SIGKILL]))"
proof (intro conjI impI allI)
  assume "kill_errno w (clock w) p SIGTERM \<noteq> 0"
  then show "Stop w name False T =
      (Some (Errno (kill_errno w (clock w) p SIGTERM)),
       w\<lparr>trace := trace w @ [EvGetPid name, EvKill p SIGTERM]\<rparr>)"
    using running by (simp add: Stop_def GetPid_def Kill_def)
next
  let ?w2 = "w\<lparr>trace := trace w @ [EvGetPid name, EvKill p SIGTERM]\<rparr>"
  assume sent: "kill_errno w (clock w) p SIGTERM = 0"
  then have start: "Stop w name False T = stop_loop ?w2 name p T"
    using running by (simp add: Stop_def GetPid_def Kill_def)
  {
    fix j
    assume j: "1 \<le> j \<and> int j \<le> T
                \<and> pid_of (lookup_pid w (clock w + j) name) < 1
                \<and> (\<forall>k. 1 \<le> k \<and> k < j \<longrightarrow> 1 \<le> pid_of (lookup_pid w (clock w + k) name))"
    then have "stop_loop ?w2 name p T =
        (None, ?w2\<lparr>clock := clock ?w2 + j, trace := trace ?w2 @ polls name j\<rparr>)"
      by (intro stop_loop_gone) simp_all
    then show "Stop w name False T =
        (None, w\<lparr>clock := clock w + j,
                  trace := trace w @ [EvGetPid name, EvKill p SIGTERM] @ polls name j\<rparr>)"
      unfolding start by simp
  }
  {
    assume all: "\<forall>k. 1 \<le> k \<and> int k \<le> T \<longrightarrow> 1 \<le> pid_of (lookup_pid w (clock w + k) name)"
    have T: "T = int (nat T)" "nat T \<noteq> 0" using timeout by simp_all
    have "\<forall>k. 1 \<le> k \<and> k \<le> nat T \<longrightarrow> 1 \<le> pid_of (lookup_pid ?w2 (clock ?w2 + k) name)"
      using all timeout by (auto simp: le_nat_iff)
    then have "stop_loop ?w2 name p (int (nat T)) =
        Kill (?w2\<lparr>clock := clock ?w2 + nat T, trace := trace ?w2 @ polls name (nat T)\<rparr>)
             (if nat T = 0 then p else pid_of (lookup_pid ?w2 (clock ?w2 + nat T) name)) SIGKILL"
      by (rule stop_loop_timeout)
    then show k: "Stop w name False T =
        Kill (w\<lparr>clock := clock w + nat T,
                trace := trace w @ [EvGetPid name, EvKill p SIGTERM] @ polls name (nat T)\<rparr>)
             (pid_of (lookup_pid w (clock w + nat T) name)) SIGKILL"
      unfolding start using T by simp
    show "trace (snd (Stop w name False T)) =
        trace w @ [EvGetPid name, EvKill p SIGTERM] @ polls name (nat T)
          @ [EvKill (pid_of (lookup_pid w (clock w + nat T) name)) SIGKILL]"
      unfolding k by (simp add: Kill_def Let_def)
  }
qed

text \<open>
  The scenario of the specification: a process that ignores SIGTERM and a timeout of
  2 seconds give one SIGTERM, two polls and then one SIGKILL. A process that is gone
  at the second poll gives one SIGTERM, two polls and no SIGKILL.
\<close>

theorem Stop_escalation_witness:
  "lookup_pid stubborn_world (clock stubborn_world) ''web'' = Inr 4242
   \<and> (1::int) \<le> 2
   \<and> kill_errno stubborn_world (clock stubborn_world) 4242 SIGTERM = 0
   \<and> trace (snd (Stop stubborn_world ''web'' False 2)) =
        [EvGetPid ''web'', EvKill 4242 SIGTERM,
         EvSleep, EvGetPid ''web'', EvSleep, EvGetPid ''web'',
         EvKill 4242 SIGKILL]
   \<and> lookup_pid dying_world (clock dying_world) ''web'' = Inr 4242
   \<and> pid_of (lookup_pid dying_world (clock dying_world + 2) ''web'') < 1
   \<and> fst (Stop dying_world ''web'' False 2) = None
   \<and> trace (snd (Stop dying_world ''web'' False 2)) =
        [EvGetPid ''web'', EvKill 4242 SIGTERM,
         EvSleep, EvGetPid ''web'', EvSleep, EvGetPid ''web'']"
proof -
  have s: "kill_errno stubborn_world t q sg = 0" "trace stubborn_world = []" for t q sg
    by (simp_all add: stubborn_world_def web_world_def empty_world_def)
  have d: "kill_errno dying_world t q sg = 0" "trace dying_world = []" "clock dying_world = 0"
    for t q sg
    by (simp_all add: dying_world_def web_world_def empty_world_def)
  have p2: "polls ''web'' 2 = [EvSleep, EvGetPid ''web'', EvSleep, EvGetPid ''web'']"
    by (simp add: polls_def numeral_2_eq_2)
  have "trace (snd (Stop stubborn_world ''web'' False 2)) =
        [EvGetPid ''web'', EvKill 4242 SIGTERM,
         EvSleep, EvGetPid ''web'', EvSleep, EvGetPid ''web'',
         EvKill 4242 SIGKILL]"
    using Stop_escalation [of stubborn_world "''web''" 4242 2]
    by (simp add: lookup_pid_stubborn s p2 pid_of_def Kill_def Let_def)
  moreover have "Stop dying_world ''web'' False 2 =
      (None, dying_world\<lparr>clock := clock dying_world + 2,
         trace := trace dying_world @ [EvGetPid ''web'', EvKill 4242 SIGTERM]
                    @ polls ''web'' 2\<rparr>)"
    by (rule Stop_escalation [of dying_world "''web''" 4242 2, THEN conjunct2, THEN mp,
          THEN conjunct1, THEN spec, of 2, THEN mp])
       (simp_all add: lookup_pid_dying d pid_of_def)
  ultimately show ?thesis
    by (simp add: lookup_pid_stubborn lookup_pid_dying s d p2 pid_of_def)
qed

section \<open>Properties of \<open>generateEnterCommand\<close> and \<open>Start\<close>\<close>

lemma isolated_unshare:
  "generateEnterCommand isolated_config empty_world =
     Returns (Inr (enter_cmd empty_world isolated_config),
              empty_world\<lparr>trace := [EvUnshare (CLONE_NEWNS OR CLONE_NEWUTS)]\<rparr>)"
  by (simp add: generateEnterCommand_def enter_network_def cloneFlags_at_unshare_def
      cloneFlags_at_return_def keep_id_def isolated_config_def web_config_def empty_config_def
      empty_world_def unshare_def KeepID_def Private_def CLONE_NEWNS_def CLONE_NEWUTS_def)

lemma unshare_never_pid_cgroup:
  "cloneFlags_at_unshare w config AND (CLONE_NEWPID OR CLONE_NEWCGROUP) = 0"
  by (simp add: cloneFlags_at_unshare_def CLONE_NEWNS_def CLONE_NEWUTS_def CLONE_NEWUSER_def
      CLONE_NEWIPC_def CLONE_NEWPID_def CLONE_NEWCGROUP_def)

text \<open>
  Claim C1. The flags accumulated for the parent-side \<open>unshare\<close> include PID and cgroup
  when these are private, and the \<open>unshare\<close> issued in the parent covers all accumulated
  flags. For a record with private PID and cgroup namespaces, the variable \<open>cloneFlags\<close>
  ends with the mount, UTS, PID and cgroup flags, but the only \<open>unshare\<close> of the run was
  called before the last two were added, with the mount and UTS flags alone.
\<close>

theorem unshare_misses_pid_and_cgroup:
  "Pid isolated_config = Private \<and> Cgroup isolated_config = Private
   \<and> cloneFlags_at_return empty_world isolated_config
       = CLONE_NEWNS OR CLONE_NEWUTS OR CLONE_NEWPID OR CLONE_NEWCGROUP
   \<and> result_world (generateEnterCommand isolated_config empty_world)
       = Some (empty_world\<lparr>trace := [EvUnshare (CLONE_NEWNS OR CLONE_NEWUTS)]\<rparr>)
   \<and> (CLONE_NEWNS OR CLONE_NEWUTS) AND CLONE_NEWPID = (0 :: 64 word)
   \<and> (CLONE_NEWNS OR CLONE_NEWUTS) AND CLONE_NEWCGROUP = (0 :: 64 word)"
proof -
  have "cloneFlags_at_return empty_world isolated_config
          = CLONE_NEWNS OR CLONE_NEWUTS OR CLONE_NEWPID OR CLONE_NEWCGROUP"
    by (simp add: cloneFlags_at_return_def cloneFlags_at_unshare_def keep_id_def
        isolated_config_def web_config_def empty_config_def KeepID_def Private_def or.assoc)
  moreover have "Pid isolated_config = Private \<and> Cgroup isolated_config = Private"
    by (simp add: isolated_config_def Private_def)
  moreover have "(CLONE_NEWNS OR CLONE_NEWUTS) AND CLONE_NEWPID = (0 :: 64 word)"
    "(CLONE_NEWNS OR CLONE_NEWUTS) AND CLONE_NEWCGROUP = (0 :: 64 word)"
    by (simp_all add: CLONE_NEWNS_def CLONE_NEWUTS_def CLONE_NEWPID_def CLONE_NEWCGROUP_def)
  ultimately show ?thesis
    by (simp add: isolated_unshare result_world_def)
qed

text \<open>
  Claim C10. Whenever \<open>generateEnterCommand\<close> returns a command, the command asks for
  a new session and a new process group, is not in the foreground, and asks for the
  credentials UID 0 and GID 0, whatever the record and the environment say about user
  namespaces.
\<close>

theorem enter_command_attributes:
  "generateEnterCommand config w = Returns (Inr cmd, w') \<Longrightarrow>
   map_option (\<lambda>a. (Setsid a, Setpgid a, Foreground a, Credential a)) (Attr cmd)
     = Some (True, True, False, Some (0, 0))"
  by (auto simp: generateEnterCommand_def Let_def enter_cmd_def SetProcessKeepIDMaps_def
      split: if_splits prod.splits outcome.splits option.splits sum.splits)

text \<open>
  The record \<open>isolated_config\<close> has \<open>userns = host\<close>: no user namespace is created, and
  the command still asks for UID 0 and GID 0.
\<close>

theorem enter_command_attributes_witness:
  "generateEnterCommand isolated_config empty_world =
     Returns (Inr (enter_cmd empty_world isolated_config),
              empty_world\<lparr>trace := [EvUnshare (CLONE_NEWNS OR CLONE_NEWUTS)]\<rparr>)
   \<and> \<not> keep_id empty_world isolated_config
   \<and> map_option (\<lambda>a. (Setsid a, Setpgid a, Foreground a, Credential a))
        (Attr (enter_cmd empty_world isolated_config))
       = Some (True, True, False, Some (0, 0))"
proof -
  have "\<not> keep_id empty_world isolated_config"
    by (simp add: keep_id_def isolated_config_def KeepID_def)
  with enter_command_attributes [OF isolated_unshare] isolated_unshare show ?thesis
    by (intro conjI)
qed

lemmas path_defs = Join_def strings_Split_def Base_def strip_slashes_def web_dir_def
  to_path_def render_def

lemmas os_defs = MkdirAll_def WriteFile_def os_WriteFile_def write_file_def fs_put_def
  is_dir_def Exist_def unshare_def bind_mount_def umount2_def os_Remove_def os_RemoveAll_def

lemmas start_defs = Start_def start_container_def inject_agent_def generateEnterCommand_def
  enter_network_def setupNetworking_def cleanupNetworking_def New_def Setup_def
  StartSlirp_def launch_def GetPid_def lookup_pid_def GetID_def GetRootfsDir_def GetDir_def
  ReadFile_def show_nat.simps show_int_def digit_char_def
  cloneFlags_at_unshare_def cloneFlags_at_return_def keep_id_def enter_cmd_def

lemmas host_defs = host_world_def bare_world_def web_world_def empty_world_def
  private_config_def isolated_config_def web_config_def empty_config_def KeepID_def Private_def


text \<open>
  Claim C8. When the agent is absent, the parent directories of the agent path are
  created and the agent is written at the agent path. With the agent path \<open>/sbin/pty\<close>
  and a root filesystem without \<open>/sbin\<close>, \<open>Start\<close> makes the directory \<open>rootfs/pty\<close>, the
  base name of the agent path, instead of \<open>rootfs/sbin\<close>; writing the agent then fails,
  and \<open>Start\<close> returns that error. With the agent path \<open>/pty\<close>, the directory is made
  at the agent path itself, and writing the agent fails on it.
\<close>

theorem Start_makes_directory_at_base_name:
  "PtyAgentPath bare_world = ''/sbin/pty''
   \<and> \<not> Exist (fs bare_world) (web_dir @ [''rootfs'', ''sbin'', ''pty''])
   \<and> Start False False isolated_config bare_world =
        Returns (Some (Errno ENOENT),
          bare_world\<lparr>
            fs := fs bare_world @ [(web_dir @ [''rootfs'', ''pty''], Dir 493)],
            trace := [EvMkdirAll (web_dir @ [''rootfs'', ''pty'']) 493,
                      EvWriteFile (web_dir @ [''rootfs'', ''sbin'', ''pty'']) 493]\<rparr>)
   \<and> Start False False isolated_config (bare_world\<lparr>PtyAgentPath := ''/pty''\<rparr>) =
        Returns (Some (Errno EISDIR),
          bare_world\<lparr>
            PtyAgentPath := ''/pty'',
            fs := fs bare_world @ [(web_dir @ [''rootfs'', ''pty''], Dir 493)],
            trace := [EvMkdirAll (web_dir @ [''rootfs'', ''pty'']) 493,
                      EvWriteFile (web_dir @ [''rootfs'', ''pty'']) 493]\<rparr>)"
  by (simp add: start_defs path_defs os_defs host_defs Let_def)

section \<open>Properties of inspection\<close>

lemma web_config_missing:
  "LoadConfig web_world (web_dir @ [''config'']) = Inl (Errno ENOENT)"
  by (simp add: LoadConfig_def ReadFile_def web_world_def empty_world_def web_dir_def)

lemma web_config_corrupt:
  "LoadConfig corrupt_world (web_dir @ [''config'']) = Inl (CorruptConfig (web_dir @ [''config'']))"
  by (simp add: LoadConfig_def ReadFile_def corrupt_world_def web_world_def empty_world_def
      web_dir_def)

lemma web_config_path:
  "Join (Join [''home'', ''u'', ''containers''] ''2567a5ec9705eb7ac2c984033e06189d'') ''config''
     = web_dir @ [''config'']"
  by (simp add: path_defs)

lemma web_world_fields:
  "ContainerDir web_world = [''home'', ''u'', ''containers'']"
  "rm_result web_world = (\<lambda>c. None)" "trace web_world = []"
  "ContainerDir corrupt_world = [''home'', ''u'', ''containers'']"
  "rm_result corrupt_world = (\<lambda>c. None)" "trace corrupt_world = []"
  by (simp_all add: corrupt_world_def web_world_def empty_world_def)

lemma GetID_corrupt_world:
  "GetID corrupt_world ''2567a5ec9705eb7ac2c984033e06189d'' = ''2567a5ec9705eb7ac2c984033e06189d''"
  by (simp add: GetID_def corrupt_world_def web_world_def empty_world_def path_defs Exist_def)

text \<open>
  Claim C9 as stated: a corrupt record triggers the removal of the container, a missing
  record surfaces an error. \<open>GetContainerInfo\<close> on a container without a configuration
  file runs \<open>rm\<close> and, when that succeeds, returns neither a record nor an error.
  \<open>Inspect\<close> on a container whose configuration file does not decode returns the error
  and runs nothing.
\<close>

theorem inspection_counterexample:
  "LoadConfig web_world (web_dir @ [''config'']) = Inl (Errno ENOENT)
   \<and> GetContainerInfo '','' web_world ''2567a5ec9705eb7ac2c984033e06189d'' False []
       = (Inr None, web_world\<lparr>trace := [EvRm ''2567a5ec9705eb7ac2c984033e06189d'']\<rparr>)
   \<and> LoadConfig corrupt_world (web_dir @ [''config''])
       = Inl (CorruptConfig (web_dir @ [''config'']))
   \<and> Inspect corrupt_world [''2567a5ec9705eb7ac2c984033e06189d''] False []
       = (Inl (CorruptConfig (web_dir @ [''config''])), corrupt_world)"
  by (simp add: GetContainerInfo_def Inspect_def run_rm_def web_world_fields web_config_path
      web_config_missing web_config_corrupt GetID_corrupt_world)

text \<open>
  Claim C9, amended. Whenever the stored record of a container fails to load, be it
  missing or corrupt, \<open>GetContainerInfo\<close> runs the program's own \<open>rm\<close> command on the
  container and returns no record; its error is the result of that command. Whenever
  the stored record of a container fails to load, \<open>Inspect\<close> returns the error of the
  load to the caller and changes nothing.
\<close>

theorem inspection_load_failure:
  "(LoadConfig w (Join (Join (ContainerDir w) container) ''config'') = Inl err \<longrightarrow>
      GetContainerInfo sep w container withSize filters =
        (case rm_result w container of Some rmErr \<Rightarrow> Inl rmErr | None \<Rightarrow> Inr None,
         w\<lparr>trace := trace w @ [EvRm container]\<rparr>))
   \<and> (LoadConfig w (Join (Join (ContainerDir w) (GetID w c)) ''config'') = Inl err \<longrightarrow>
        Inspect w (c # cs) withSize format = (Inl err, w))"
  by (simp add: GetContainerInfo_def Inspect_def run_rm_def split: option.splits)

theorem inspection_load_failure_witness:
  "LoadConfig corrupt_world
       (Join (Join (ContainerDir corrupt_world) ''2567a5ec9705eb7ac2c984033e06189d'') ''config'')
     = Inl (CorruptConfig (web_dir @ [''config'']))
   \<and> GetContainerInfo '','' corrupt_world ''2567a5ec9705eb7ac2c984033e06189d'' False []
       = (Inr None, corrupt_world\<lparr>trace := [EvRm ''2567a5ec9705eb7ac2c984033e06189d'']\<rparr>)
   \<and> LoadConfig web_world
       (Join (Join (ContainerDir web_world) (GetID web_world ''web'')) ''config'')
       = Inl (Errno ENOENT)
   \<and> Inspect web_world [''web''] False [] = (Inl (Errno ENOENT), web_world)"
proof -
  have a: "LoadConfig corrupt_world
       (Join (Join (ContainerDir corrupt_world) ''2567a5ec9705eb7ac2c984033e06189d'') ''config'')
     = Inl (CorruptConfig (web_dir @ [''config'']))"
    by (simp add: web_world_fields web_config_path web_config_corrupt)
  have b: "LoadConfig web_world
       (Join (Join (ContainerDir web_world) (GetID web_world ''web'')) ''config'')
       = Inl (Errno ENOENT)"
    by (simp add: web_world_fields GetID_web_world web_config_path web_config_missing)
  from a b
    inspection_load_failure [of corrupt_world "''2567a5ec9705eb7ac2c984033e06189d''"
      "CorruptConfig (web_dir @ [''config''])" "'',''" False "[]" "''2567a5ec9705eb7ac2c984033e06189d''" "[]" "[]"]
    inspection_load_failure [of web_world "''2567a5ec9705eb7ac2c984033e06189d''"
      "Errno ENOENT" "'',''" False "[]" "''web''" "[]" "[]"]
  show ?thesis
    by (simp add: web_world_fields)
qed

end
